theory Spec2Isabelle
  imports Complex_Main "HOL-Library.Multiset" "HOL-Library.List_Lexorder"
    "HOL-Library.State_Monad"
begin

section \<open>Strings and the library functions the matcher relies on\<close>

text \<open>
  A Python \<open>str\<close> is a sequence of Unicode code points, so a string is a list of code
  points here. ASCII literals of the source are written \<open>ustr ''...''\<close>; the CJK
  literals are given by their code points. Python floats are read as real numbers.
\<close>

type_synonym ustring = "nat list"

definition ustr :: "string \<Rightarrow> ustring" where
  "ustr s = map of_char s"

text \<open>
  Three library functions are not part of the repository and are taken as parameters:
  \<^item> \<open>unicode_lower\<close>: the lower-case mapping \<open>str.lower()\<close> applies to a code point that
    is neither ASCII, nor whitespace, nor a CJK ideograph of the range U+4E00..U+9FA5
    (the result may be several code points);
  \<^item> \<open>tfidf_max\<close>: for \<open>field_similarity\<close>, the outcome of fitting
    \<open>TfidfVectorizer(analyzer='char', ngram_range=(2, 4))\<close> on \<open>cands + [q]\<close> and taking the
    largest cosine similarity between the last row and the others; \<open>None\<close> when
    \<open>fit_transform\<close> raises \<open>ValueError\<close>;
  \<^item> \<open>tfidf_sims_max\<close>: for \<open>calculate_tfidf_similarity\<close> of the first-generation matcher,
    the largest of the cosine similarities of the query against the candidates under
    \<open>TfidfVectorizer(analyzer='char', ngram_range=(1, 3), max_features=1000)\<close>; \<open>None\<close> when
    the computation raises.
\<close>

record pylib =
  unicode_lower :: "nat \<Rightarrow> ustring"
  tfidf_max :: "ustring list \<Rightarrow> ustring \<Rightarrow> real option"
  tfidf_sims_max :: "ustring \<Rightarrow> ustring list \<Rightarrow> real option"

text \<open>The code points the whitespace class of \<open>_RE_SPACE\<close> matches in a \<open>str\<close> pattern
  (those with \<open>str.isspace()\<close>).\<close>

definition is_space :: "nat \<Rightarrow> bool" where
  "is_space c \<longleftrightarrow>
     (9 \<le> c \<and> c \<le> 13) \<or> (28 \<le> c \<and> c \<le> 32) \<or> c = 133 \<or> c = 160 \<or> c = 5760 \<or>
     (8192 \<le> c \<and> c \<le> 8202) \<or> c = 8232 \<or> c = 8233 \<or> c = 8239 \<or> c = 8287 \<or> c = 12288"

text \<open>\<open>str.lower()\<close>: \<open>A\<close>..\<open>Z\<close> go to \<open>a\<close>..\<open>z\<close>; the other ASCII code points, the
  CJK ideographs and the whitespace have no case and stay; every other code point is
  looked up in the table. (Python lowers a capital sigma by its position in the word; both
  of its lower-case forms are outside the class \<open>_RE_KEEP\<close> keeps.)\<close>

definition lower_cp :: "pylib \<Rightarrow> nat \<Rightarrow> ustring" where
  "lower_cp lib c =
     (if 65 \<le> c \<and> c \<le> 90 then [c + 32]
      else if c < 128 \<or> (19968 \<le> c \<and> c \<le> 40869) \<or> is_space c then [c]
      else unicode_lower lib c)"

definition str_lower :: "pylib \<Rightarrow> ustring \<Rightarrow> ustring" where
  "str_lower lib s = concat (map (lower_cp lib) s)"

text \<open>The class of \<open>_RE_DASH\<close> (underscore, hyphen) and the class \<open>_RE_KEEP\<close> leaves in place:
  \<open>a\<close>..\<open>z\<close>, \<open>0\<close>..\<open>9\<close> and U+4E00..U+9FA5.\<close>

definition is_dash :: "nat \<Rightarrow> bool" where
  "is_dash c \<longleftrightarrow> c = 95 \<or> c = 45"

definition is_keep :: "nat \<Rightarrow> bool" where
  "is_keep c \<longleftrightarrow> (97 \<le> c \<and> c \<le> 122) \<or> (48 \<le> c \<and> c \<le> 57) \<or> (19968 \<le> c \<and> c \<le> 40869)"

text \<open>\<open>str.strip()\<close>: leading and trailing whitespace removed.\<close>

definition strip :: "ustring \<Rightarrow> ustring" where
  "strip s = rev (dropWhile is_space (rev (dropWhile is_space s)))"

text \<open>Python's \<open>a in b\<close> on strings: \<open>a\<close> occurs in \<open>b\<close> as a contiguous piece.\<close>

fun starts_with :: "ustring \<Rightarrow> ustring \<Rightarrow> bool" where
  "starts_with [] ys = True"
| "starts_with (x # xs) [] = False"
| "starts_with (x # xs) (y # ys) = (x = y \<and> starts_with xs ys)"

fun str_in :: "ustring \<Rightarrow> ustring \<Rightarrow> bool" where
  "str_in a [] = (a = [])"
| "str_in a (y # ys) = (starts_with a (y # ys) \<or> str_in a ys)"

text \<open>\<open>s.split('.')[0]\<close> and \<open>sep.join(parts)\<close>.\<close>

definition split_dot_head :: "ustring \<Rightarrow> ustring" where
  "split_dot_head s = takeWhile (\<lambda>c. c \<noteq> 46) s"

fun join_with :: "ustring \<Rightarrow> ustring list \<Rightarrow> ustring" where
  "join_with sep [] = []"
| "join_with sep [x] = x"
| "join_with sep (x # y # ys) = x @ sep @ join_with sep (y # ys)"


section \<open>matcher_engine.py: normalisation\<close>

text \<open>
  The value \<open>normalize\<close> (lines 65--81) computes when its cache has no entry for the text.
  The functions below use it directly; \<open>normalize_cached\<close> further down is the function
  with its cache.
\<close>

definition normalize_str :: "pylib \<Rightarrow> ustring \<Rightarrow> ustring" where
  "normalize_str lib text =
     (if text = [] then []
      else strip (filter is_keep
             (filter (\<lambda>c. \<not> is_dash c)
                (filter (\<lambda>c. \<not> is_space c) (str_lower lib text)))))"

text \<open>
  \<open>LRUCache\<close> (lines 33--56): an ordered dict, oldest entry first. \<open>get\<close> moves a hit to
  the end; \<open>set\<close> puts the entry at the end and drops the oldest one when the table has
  grown past \<open>maxsize\<close>. \<open>normalize_cached\<close> is \<open>normalize\<close> (lines 65--81) with
  \<open>_normalize_cache\<close>, of capacity 1000: it returns the token and the cache it leaves.
\<close>

type_synonym ('k, 'v) lru = "('k \<times> 'v) list"

definition lru_get :: "('k, 'v) lru \<Rightarrow> 'k \<Rightarrow> 'v option \<times> ('k, 'v) lru" where
  "lru_get cache key =
     (case map_of cache key of
        None \<Rightarrow> (None, cache)
      | Some v \<Rightarrow> (Some v, filter (\<lambda>kv. fst kv \<noteq> key) cache @ [(key, v)]))"

definition lru_set :: "nat \<Rightarrow> ('k, 'v) lru \<Rightarrow> 'k \<Rightarrow> 'v \<Rightarrow> ('k, 'v) lru" where
  "lru_set maxsize cache key v =
     (let cache1 = filter (\<lambda>kv. fst kv \<noteq> key) cache @ [(key, v)]
      in if length cache1 > maxsize then tl cache1 else cache1)"

definition normalize_cached ::
  "pylib \<Rightarrow> (ustring, ustring) lru \<Rightarrow> ustring \<Rightarrow> ustring \<times> (ustring, ustring) lru" where
  "normalize_cached lib cache text =
     (if text = [] then ([], cache)
      else (case lru_get cache text of
              (Some cached, cache1) \<Rightarrow> (cached, cache1)
            | (None, cache1) \<Rightarrow>
                (let result = strip (filter is_keep
                       (filter (\<lambda>c. \<not> is_dash c)
                          (filter (\<lambda>c. \<not> is_space c) (str_lower lib text))))
                 in (result, lru_set 1000 cache1 text result))))"

text \<open>A cache all of whose entries hold the value of \<open>f\<close> at their key. The empty cache
  of a fresh process is one.\<close>

definition memo_of :: "('k \<Rightarrow> 'v) \<Rightarrow> ('k, 'v) lru \<Rightarrow> bool" where
  "memo_of f cache = list_all (\<lambda>kv. snd kv = f (fst kv)) cache"


text \<open>A library instance for evaluation: no case mapping beyond ASCII, and a vectoriser
  that finds no n-gram.\<close>

definition lib0 :: pylib where
  "lib0 = \<lparr>unicode_lower = (\<lambda>c. [c]), tfidf_max = (\<lambda>cands q. None),
           tfidf_sims_max = (\<lambda>q cands. None)\<rparr>"


section \<open>matcher_engine.py: data\<close>

text \<open>
  A device request and an entity are JSON objects read with \<open>dict.get\<close>; both are records
  of the keys the matchers read. A key that is absent, \<open>null\<close> or the empty string is the
  empty string here (the code treats the three alike: it tests truthiness before use).
  \<open>level\<close> holds the text \<open>str()\<close> gives for the entity's level, the empty string for an
  absent one. \<open>friendly_name\<close> is
  \<open>attributes.friendly_name\<close>, \<open>top_friendly_name\<close> the top-level key the first-generation
  matcher also reads. The opaque \<open>service_data\<close> and \<open>automation\<close> payloads are copied to the
  output unread and are left out.
\<close>

record obj =
  floor_name_en :: ustring
  floor_type :: ustring
  floor_name :: ustring
  level :: ustring
  room_name_en :: ustring
  room_type :: ustring
  room_name :: ustring
  device_name :: ustring
  device_name_en :: ustring
  friendly_name :: ustring
  top_friendly_name :: ustring
  device_type :: ustring
  entity_id :: ustring
  service :: ustring

definition empty_obj :: obj where
  "empty_obj = \<lparr>floor_name_en = [], floor_type = [], floor_name = [], level = [],
     room_name_en = [], room_type = [], room_name = [], device_name = [],
     device_name_en = [], friendly_name = [], top_friendly_name = [], device_type = [],
     entity_id = [], service = []\<rparr>"

datatype field = F_floor | F_room | F_name | F_type

text \<open>An alias table (\<open>Dict[str, List[str]]\<close>, iterated in insertion order) and the three
  tables of a payload's \<open>aliases\<close>; an absent table is the empty one.\<close>

type_synonym alias_map = "(ustring \<times> ustring list) list"

record aliases =
  rooms :: alias_map
  floors :: alias_map
  device_types :: alias_map

type_synonym alias_index = "ustring \<rightharpoonup> ustring"

datatype alias_class = Rooms | Floors | Device_types

text \<open>The module-level \<open>_alias_indices\<close>: a dict from alias class to reverse index, empty
  until \<open>process\<close> has run once.\<close>

type_synonym alias_indices = "alias_class \<rightharpoonup> alias_index"

text \<open>The \<open>config\<close> object. \<open>weights\<close>, when given, carries the four keys \<open>F\<close>, \<open>R\<close>, \<open>N\<close>, \<open>T\<close>
  (line 397 indexes them); each key of \<open>thresholds\<close> is optional (\<open>TH.get(key, default)\<close>).\<close>

record weights =
  w_F :: real
  w_R :: real
  w_N :: real
  w_T :: real

record thresholds =
  th_floor :: "real option"
  th_room :: "real option"
  th_type :: "real option"
  th_name :: "real option"

record config =
  cfg_weights :: "weights option"
  cfg_thresholds :: "thresholds option"
  cfg_topK :: "int option"
  cfg_gap :: "real option"

definition default_config :: config where
  "default_config = \<lparr>cfg_weights = None, cfg_thresholds = None, cfg_topK = None, cfg_gap = None\<rparr>"

definition default_weights :: weights where
  "default_weights = \<lparr>w_F = 0.15, w_R = 0.40, w_N = 0.30, w_T = 0.15\<rparr>"

definition default_thresholds :: thresholds where
  "default_thresholds = \<lparr>th_floor = Some 0.7, th_room = Some 0.7, th_type = Some 0.65,
     th_name = Some 0.8\<rparr>"

definition get_or :: "'a option \<Rightarrow> 'a \<Rightarrow> 'a" where
  "get_or v d = (case v of None \<Rightarrow> d | Some x \<Rightarrow> x)"

text \<open>Per field, the query text and its similarity score (the \<open>matched\<close> evidence).\<close>

record evidence =
  ev_floor :: "ustring \<times> real"
  ev_room :: "ustring \<times> real"
  ev_device_name :: "ustring \<times> real"
  ev_device_type :: "ustring \<times> real"


section \<open>matcher_engine.py: fields, aliases, similarity\<close>

text \<open>\<open>GENERIC_NAMES_RAW\<close> (lines 85--100) and the set \<open>GENERIC_NAMES\<close> of its normal forms.\<close>

definition GENERIC_NAMES_RAW :: "ustring list" where
  "GENERIC_NAMES_RAW = [
    ustr ''light'', ustr ''lights'', ustr ''lamp'', ustr ''lamps'', ustr ''deng'',
    [28783], [28783, 20809], [28783, 20855], [29031, 26126], ustr ''switch'',
    ustr ''switches'', ustr ''kaiguan'', [24320, 20851], ustr ''socket'',
    ustr ''sockets'', ustr ''chazuo'', [25554, 24231], ustr ''outlet'', ustr ''plug'',
    ustr ''ac'', ustr ''aircon'', ustr ''kongtiao'', [31354, 35843], [20919, 27668],
    ustr ''climate'', ustr ''fan'', ustr ''fans'', ustr ''fengshan'', [39118, 25159],
    ustr ''cover'', ustr ''covers'', ustr ''chuanglian'', [31383, 24088],
    ustr ''curtain'', ustr ''blind'', ustr ''lock'', ustr ''locks'', ustr ''suo'',
    [38145], [38376, 38145], ustr ''camera'', ustr ''cameras'', ustr ''cam'',
    ustr ''shexiangtou'', [25668, 20687, 22836], [30417, 25511], ustr ''sensor'',
    ustr ''sensors'', ustr ''chuanganqi'', [20256, 24863, 22120], ustr ''temperature'',
    ustr ''temp'', ustr ''wendu'', [28201, 24230], ustr ''temperaturesensor'',
    [28201, 24230, 20256, 24863, 22120], ustr ''humidity'', ustr ''shidu'',
    [28287, 24230], [28287, 24230, 20256, 24863, 22120], ustr ''motion'',
    ustr ''renti'', [20154, 20307], ustr ''motionsensor'',
    [36816, 21160, 20256, 24863, 22120], ustr ''yundongchuanganqi'',
    ustr ''occupancy'', ustr ''zhanyong'', [21344, 29992], ustr ''occupancysensor'',
    [21344, 29992, 20256, 24863, 22120], ustr ''zhanyongchuanganqi'', ustr ''door'',
    ustr ''menchuang'', [38376, 31383], ustr ''doorsensor'',
    [38376, 31383, 20256, 24863, 22120], ustr ''menci'', [38376, 30913]]"

definition GENERIC_NAMES :: "pylib \<Rightarrow> ustring set" where
  "GENERIC_NAMES lib = set (map (normalize_str lib) GENERIC_NAMES_RAW)"

text \<open>\<open>extract_field_candidates\<close> (lines 107--133) and \<open>get_primary_field\<close> (136--142).\<close>

definition extract_field_candidates :: "pylib \<Rightarrow> obj \<Rightarrow> field \<Rightarrow> ustring list" where
  "extract_field_candidates lib ob fld =
     (case fld of
        F_floor \<Rightarrow> [floor_name_en ob, floor_type ob, floor_name ob, level ob]
      | F_room \<Rightarrow> [room_name_en ob, room_type ob, room_name ob]
      | F_name \<Rightarrow> [device_name ob, friendly_name ob]
      | F_type \<Rightarrow> [str_lower lib (device_type ob),
                    (if entity_id ob \<noteq> [] then split_dot_head (entity_id ob) else [])])"

fun first_nonempty :: "ustring list \<Rightarrow> ustring" where
  "first_nonempty [] = []"
| "first_nonempty (c # cs) = (if c \<noteq> [] then c else first_nonempty cs)"

definition get_primary_field :: "pylib \<Rightarrow> obj \<Rightarrow> field \<Rightarrow> ustring" where
  "get_primary_field lib ob fld = first_nonempty (extract_field_candidates lib ob fld)"

text \<open>\<open>build_alias_reverse_index\<close> (lines 146--157): later entries overwrite earlier ones.\<close>

fun index_aliases :: "pylib \<Rightarrow> ustring \<Rightarrow> ustring list \<Rightarrow> alias_index \<Rightarrow> alias_index" where
  "index_aliases lib canonical_norm [] index = index"
| "index_aliases lib canonical_norm (alias # rest) index =
     (let alias_norm = normalize_str lib alias
      in index_aliases lib canonical_norm rest
           (if alias_norm \<noteq> [] then index(alias_norm \<mapsto> canonical_norm) else index))"

fun index_entries :: "pylib \<Rightarrow> alias_map \<Rightarrow> alias_index \<Rightarrow> alias_index" where
  "index_entries lib [] index = index"
| "index_entries lib ((canonical, als) # rest) index =
     (let canonical_norm = normalize_str lib canonical
      in index_entries lib rest
           (if canonical_norm \<noteq> []
            then index_aliases lib canonical_norm als (index(canonical_norm \<mapsto> canonical_norm))
            else index))"

definition build_alias_reverse_index :: "pylib \<Rightarrow> alias_map \<Rightarrow> alias_index" where
  "build_alias_reverse_index lib alias_map = index_entries lib alias_map Map.empty"

text \<open>\<open>expand_alias_fast\<close> (lines 164--174), reading the module-level indices.\<close>

definition expand_alias_fast ::
  "pylib \<Rightarrow> alias_indices \<Rightarrow> ustring \<Rightarrow> alias_class \<Rightarrow> ustring list" where
  "expand_alias_fast lib indices v alias_type =
     (case indices alias_type of
        None \<Rightarrow> (if v \<noteq> [] then [normalize_str lib v] else [])
      | Some index \<Rightarrow>
          (if v = [] then []
           else let v_norm = normalize_str lib v
                in (case index v_norm of
                      None \<Rightarrow> [v_norm]
                    | Some canonical \<Rightarrow> if canonical \<noteq> [] then [canonical] else [v_norm])))"

text \<open>
  The value \<open>field_similarity\<close> (lines 194--229) computes when \<open>_tfidf_cache\<close> has no
  entry for the query and the candidates. No candidate is \<open>None\<close> in this model.
\<close>

definition field_similarity :: "pylib \<Rightarrow> ustring \<Rightarrow> ustring list \<Rightarrow> real" where
  "field_similarity lib query candidates =
     (let q = normalize_str lib query;
          cands = filter (\<lambda>c. c \<noteq> []) (map (normalize_str lib) (filter (\<lambda>c. c \<noteq> []) candidates))
      in if q = [] \<or> cands = [] then 0
         else if q \<in> set cands then 1
         else if list_ex (\<lambda>c. str_in q c \<or> str_in c q) cands then 0.95
         else (case tfidf_max lib cands q of None \<Rightarrow> 0 | Some v \<Rightarrow> v))"


text \<open>
  \<open>field_similarity\<close> (lines 194--229) with both caches: \<open>_tfidf_cache\<close>, of capacity 500,
  is keyed by the raw query and the sorted raw candidates. \<open>order_blind\<close> says that the
  vectoriser's best similarity does not depend on the order of the candidates, and
  \<open>caches_ok\<close> that every entry of the two caches holds the value computed for its key.
\<close>

fun normalize_each ::
  "pylib \<Rightarrow> (ustring, ustring) lru \<Rightarrow> ustring list \<Rightarrow> ustring list \<times> (ustring, ustring) lru" where
  "normalize_each lib cache [] = ([], cache)"
| "normalize_each lib cache (c # cs) =
     (case normalize_cached lib cache c of
        (r, cache1) \<Rightarrow> (case normalize_each lib cache1 cs of (rs, cache2) \<Rightarrow> (r # rs, cache2)))"

record caches =
  normalize_cache :: "(ustring, ustring) lru"
  tfidf_cache :: "(ustring \<times> ustring list, real) lru"

definition field_similarity_cached ::
  "pylib \<Rightarrow> caches \<Rightarrow> ustring \<Rightarrow> ustring list \<Rightarrow> real \<times> caches" where
  "field_similarity_cached lib cs query candidates =
     (let cache_key = (query, sort candidates)
      in (case lru_get (tfidf_cache cs) cache_key of
            (Some cached, tc1) \<Rightarrow> (cached, cs\<lparr>tfidf_cache := tc1\<rparr>)
          | (None, tc1) \<Rightarrow>
              (case normalize_cached lib (normalize_cache cs) query of
                 (q, nc1) \<Rightarrow>
                   (case normalize_each lib nc1 (filter (\<lambda>c. c \<noteq> []) candidates) of
                      (cands0, nc2) \<Rightarrow>
                        (let cands = filter (\<lambda>c. c \<noteq> []) cands0;
                             result =
                               (if q = [] \<or> cands = [] then 0
                                else if q \<in> set cands then 1
                                else if list_ex (\<lambda>c. str_in q c \<or> str_in c q) cands then 0.95
                                else (case tfidf_max lib cands q of None \<Rightarrow> 0 | Some v \<Rightarrow> v))
                         in (result,
                             \<lparr>normalize_cache = nc2,
                              tfidf_cache = lru_set 500 tc1 cache_key result\<rparr>))))))"

definition order_blind :: "pylib \<Rightarrow> bool" where
  "order_blind lib \<longleftrightarrow>
     (\<forall>cands cands' q. mset cands = mset cands' \<longrightarrow> tfidf_max lib cands q = tfidf_max lib cands' q)"

definition caches_ok :: "pylib \<Rightarrow> caches \<Rightarrow> bool" where
  "caches_ok lib cs \<longleftrightarrow>
     memo_of (normalize_str lib) (normalize_cache cs) \<and>
     memo_of (\<lambda>key. field_similarity lib (fst key) (snd key)) (tfidf_cache cs)"


text \<open>The caches of a fresh process.\<close>

definition empty_caches :: caches where
  "empty_caches = \<lparr>normalize_cache = [], tfidf_cache = []\<rparr>"


section \<open>matcher_engine.py: candidate pool\<close>

text \<open>\<open>build_type_index\<close> (lines 487--509): entities grouped under the normal form of
  their domain and of their declared device type.\<close>

type_synonym type_index = "ustring \<rightharpoonup> obj list"

definition index_get :: "type_index \<Rightarrow> ustring \<Rightarrow> obj list" where
  "index_get index k = (case index k of None \<Rightarrow> [] | Some es \<Rightarrow> es)"

definition type_index_step :: "pylib \<Rightarrow> obj \<Rightarrow> type_index \<Rightarrow> type_index" where
  "type_index_step lib e index =
     (let domain = (if entity_id e \<noteq> [] then split_dot_head (entity_id e) else []);
          domain_normalized = normalize_str lib domain;
          index1 = (if domain \<noteq> [] \<and> domain_normalized \<noteq> []
                    then index(domain_normalized \<mapsto> index_get index domain_normalized @ [e])
                    else index);
          type_normalized = normalize_str lib (device_type e)
      in if device_type e \<noteq> [] \<and> type_normalized \<noteq> [] \<and>
            type_normalized \<noteq> normalize_str lib domain
         then (if e \<in> set (index_get index1 type_normalized) then index1
               else index1(type_normalized \<mapsto> index_get index1 type_normalized @ [e]))
         else index1)"

definition build_type_index :: "pylib \<Rightarrow> obj list \<Rightarrow> type_index" where
  "build_type_index lib es = fold (type_index_step lib) es Map.empty"

text \<open>\<open>filter_candidates\<close> (lines 233--287) in its three stages: the pool by type (239--261),
  narrowed by room when it holds more than 50 entities (264--273), then by floor when it
  still holds more than 30 (276--285).\<close>

definition type_pool :: "pylib \<Rightarrow> obj \<Rightarrow> obj list \<Rightarrow> type_index \<Rightarrow> obj list" where
  "type_pool lib dev es index =
     (let type_q = get_primary_field lib dev F_type;
          service_domain = (if service dev \<noteq> [] then split_dot_head (service dev) else [])
      in if type_q \<noteq> [] then
           (let pool = index_get index (normalize_str lib type_q);
                pool1 = (if pool = [] \<and> service_domain \<noteq> []
                         then index_get index (normalize_str lib service_domain) else pool)
            in if pool1 = [] then es else pool1)
         else if service_domain \<noteq> [] then
           (let pool = index_get index (normalize_str lib service_domain)
            in if pool = [] then es else pool)
         else es)"

definition narrow_by :: "pylib \<Rightarrow> field \<Rightarrow> nat \<Rightarrow> obj \<Rightarrow> obj list \<Rightarrow> obj list" where
  "narrow_by lib fld limit dev pool =
     (if length pool > limit then
        (let q = get_primary_field lib dev fld
         in if q \<noteq> [] then
              (let q_norm = normalize_str lib q;
                   filtered = filter (\<lambda>e. str_in q_norm
                                (normalize_str lib (get_primary_field lib e fld))) pool
               in if filtered \<noteq> [] then filtered else pool)
            else pool)
      else pool)"

definition filter_candidates :: "pylib \<Rightarrow> obj \<Rightarrow> obj list \<Rightarrow> type_index \<Rightarrow> obj list" where
  "filter_candidates lib dev es index =
     narrow_by lib F_floor 30 dev (narrow_by lib F_room 50 dev (type_pool lib dev es index))"


section \<open>matcher_engine.py: scoring one request against one entity\<close>

text \<open>\<open>detect_location_from_name\<close> (lines 297--308): the first room code of the alias
  table whose normal form, or one of whose aliases' normal forms, occurs in the name.\<close>

fun detect_in :: "pylib \<Rightarrow> ustring \<Rightarrow> alias_map \<Rightarrow> ustring" where
  "detect_in lib n [] = []"
| "detect_in lib n ((room_code, als) # rest) =
     (if normalize_str lib room_code \<noteq> [] \<and> str_in (normalize_str lib room_code) n
      then room_code
      else if list_ex (\<lambda>a. normalize_str lib a \<noteq> [] \<and> str_in (normalize_str lib a) n) als
      then room_code
      else detect_in lib n rest)"

definition detect_location_from_name :: "pylib \<Rightarrow> ustring \<Rightarrow> alias_map \<Rightarrow> ustring" where
  "detect_location_from_name lib name_q room_aliases =
     (let n = normalize_str lib name_q in if n = [] then [] else detect_in lib n room_aliases)"

text \<open>The locals of \<open>compute_scores_for_device\<close> (lines 312--408), one definition each.\<close>

definition floor_q :: "pylib \<Rightarrow> obj \<Rightarrow> ustring" where
  "floor_q lib dev = get_primary_field lib dev F_floor"

definition room_q :: "pylib \<Rightarrow> obj \<Rightarrow> ustring" where
  "room_q lib dev = get_primary_field lib dev F_room"

definition name_q :: "pylib \<Rightarrow> obj \<Rightarrow> ustring" where
  "name_q lib dev = get_primary_field lib dev F_name"

text \<open>\<open>type_q\<close> after the service fallback (lines 322--324) and the inference of a
  temperature or humidity type from the name (339--345).\<close>

definition type_q :: "pylib \<Rightarrow> obj \<Rightarrow> ustring" where
  "type_q lib dev =
     (let t0 = get_primary_field lib dev F_type;
          t1 = (if t0 = [] \<and> service dev \<noteq> [] then split_dot_head (service dev) else t0);
          nq = name_q lib dev;
          name_norm = normalize_str lib nq
      in if nq \<noteq> [] \<and> t1 = [] then
           (if str_in (ustr ''temperature'') name_norm \<or> str_in (ustr ''wendu'') name_norm \<or>
               str_in [28201, 24230] nq
            then ustr ''temperature''
            else if str_in (ustr ''humidity'') name_norm \<or> str_in (ustr ''shidu'') name_norm \<or>
               str_in [28287, 24230] nq
            then ustr ''humidity''
            else t1)
         else t1)"

definition floor_score :: "pylib \<Rightarrow> obj \<Rightarrow> obj \<Rightarrow> real" where
  "floor_score lib dev e =
     (if floor_q lib dev \<noteq> []
      then field_similarity lib (floor_q lib dev) (extract_field_candidates lib e F_floor) else 0)"

definition room_score :: "pylib \<Rightarrow> obj \<Rightarrow> obj \<Rightarrow> real" where
  "room_score lib dev e =
     (if room_q lib dev \<noteq> []
      then field_similarity lib (room_q lib dev) (extract_field_candidates lib e F_room) else 0)"

definition name_score :: "pylib \<Rightarrow> obj \<Rightarrow> obj \<Rightarrow> real" where
  "name_score lib dev e =
     (if name_q lib dev \<noteq> []
      then field_similarity lib (name_q lib dev) (extract_field_candidates lib e F_name) else 0)"

definition type_score :: "pylib \<Rightarrow> alias_indices \<Rightarrow> obj \<Rightarrow> obj \<Rightarrow> real" where
  "type_score lib indices dev e =
     (let tq = type_q lib dev;
          e_type_cands = extract_field_candidates lib e F_type;
          type_cands = (if tq \<noteq> [] then expand_alias_fast lib indices tq Device_types else []);
          e_types_norm = concat (map (\<lambda>c. expand_alias_fast lib indices c Device_types) e_type_cands)
      in field_similarity lib
           (if type_cands \<noteq> [] then join_with [32] type_cands else tq)
           (if e_types_norm \<noteq> [] then [join_with [32] e_types_norm] else e_type_cands))"

definition location_bonus :: "pylib \<Rightarrow> obj \<Rightarrow> obj \<Rightarrow> aliases \<Rightarrow> real" where
  "location_bonus lib dev e als =
     (if name_q lib dev \<noteq> [] then
        (let extracted_room = detect_location_from_name lib (name_q lib dev) (rooms als)
         in if extracted_room \<noteq> [] \<and> normalize_str lib extracted_room \<noteq> [] \<and>
               normalize_str lib extracted_room = normalize_str lib (get_primary_field lib e F_room)
            then 0.4 else 0)
      else 0)"

definition is_generic :: "pylib \<Rightarrow> obj \<Rightarrow> bool" where
  "is_generic lib dev =
     (if name_q lib dev \<noteq> [] then normalize_str lib (name_q lib dev) \<in> GENERIC_NAMES lib else False)"

definition TH :: "config \<Rightarrow> thresholds" where
  "TH cfg = get_or (cfg_thresholds cfg) default_thresholds"

definition W :: "config \<Rightarrow> weights" where
  "W cfg = get_or (cfg_weights cfg) default_weights"

text \<open>The four gates (lines 373--383). The room gate compares with the literal 0.98 and
  never reads \<open>TH\<close>.\<close>

definition floor_pass :: "pylib \<Rightarrow> config \<Rightarrow> obj \<Rightarrow> obj \<Rightarrow> bool" where
  "floor_pass lib cfg dev e =
     (if floor_q lib dev = [] then True else floor_score lib dev e \<ge> get_or (th_floor (TH cfg)) 0.7)"

definition room_pass :: "pylib \<Rightarrow> obj \<Rightarrow> obj \<Rightarrow> bool" where
  "room_pass lib dev e =
     (if room_q lib dev \<noteq> [] then room_score lib dev e \<ge> 0.98 else True)"

definition type_pass :: "pylib \<Rightarrow> alias_indices \<Rightarrow> config \<Rightarrow> obj \<Rightarrow> obj \<Rightarrow> bool" where
  "type_pass lib indices cfg dev e =
     (if type_q lib dev = [] then True
      else type_score lib indices dev e \<ge> get_or (th_type (TH cfg)) 0.65)"

definition name_pass :: "pylib \<Rightarrow> config \<Rightarrow> obj \<Rightarrow> obj \<Rightarrow> bool" where
  "name_pass lib cfg dev e =
     (if name_q lib dev = [] \<or> is_generic lib dev then True
      else name_score lib dev e \<ge> get_or (th_name (TH cfg)) 0.8)"

definition matched_evidence :: "pylib \<Rightarrow> alias_indices \<Rightarrow> obj \<Rightarrow> obj \<Rightarrow> evidence" where
  "matched_evidence lib indices dev e =
     \<lparr>ev_floor = (floor_q lib dev, floor_score lib dev e),
      ev_room = (room_q lib dev, room_score lib dev e),
      ev_device_name = (name_q lib dev, name_score lib dev e),
      ev_device_type = (type_q lib dev, type_score lib indices dev e)\<rparr>"

text \<open>The weighted sum of lines 394--401, before the location bonus is added.\<close>

definition base_score :: "pylib \<Rightarrow> alias_indices \<Rightarrow> config \<Rightarrow> obj \<Rightarrow> obj \<Rightarrow> real" where
  "base_score lib indices cfg dev e =
     (let name_score_final = (if is_generic lib dev then 0.85 else name_score lib dev e);
          floor_score_weight = (if floor_q lib dev \<noteq> [] then floor_score lib dev e else 0.90)
      in w_F (W cfg) * floor_score_weight + w_R (W cfg) * room_score lib dev e +
         w_N (W cfg) * name_score_final + w_T (W cfg) * type_score lib indices dev e)"

definition compute_scores_for_device ::
  "pylib \<Rightarrow> alias_indices \<Rightarrow> obj \<Rightarrow> obj \<Rightarrow> aliases \<Rightarrow> config \<Rightarrow> real \<times> evidence" where
  "compute_scores_for_device lib indices dev e als cfg =
     (if \<not> (floor_pass lib cfg dev e \<and> room_pass lib dev e \<and>
             type_pass lib indices cfg dev e \<and> name_pass lib cfg dev e)
      then (- 1, matched_evidence lib indices dev e)
      else (base_score lib indices cfg dev e + location_bonus lib dev e als,
            matched_evidence lib indices dev e))"


section \<open>matcher_engine.py: suggestions, ranking, the batch\<close>

text \<open>\<open>list.sort(key=..., reverse=True)\<close>: stable, largest key first; and the slice
  \<open>xs[:k]\<close> for an integer \<open>k\<close>, which drops the last \<open>-k\<close> items when \<open>k\<close> is negative.\<close>

definition sort_desc :: "('a \<Rightarrow> real) \<Rightarrow> 'a list \<Rightarrow> 'a list" where
  "sort_desc f xs = sort_key (\<lambda>x. - f x) xs"

definition slice_to :: "int \<Rightarrow> 'a list \<Rightarrow> 'a list" where
  "slice_to k xs = (if 0 \<le> k then take (nat k) xs else take (length xs - nat (- k)) xs)"

text \<open>The local \<open>norm\<close> of \<open>loose_suggestions\<close> (lines 421--424), named \<open>norm_loose\<close>.\<close>

definition norm_loose :: "pylib \<Rightarrow> ustring \<Rightarrow> ustring" where
  "norm_loose lib text =
     (if text = [] then []
      else strip (filter (\<lambda>c. c \<noteq> 32) (filter (\<lambda>c. c \<noteq> 45) (filter (\<lambda>c. c \<noteq> 95)
             (str_lower lib text)))))"

text \<open>A suggestion; \<open>reason_score\<close> is the score before the output rounds it to three
  decimals.\<close>

record suggestion =
  sg_entity_id :: ustring
  sg_device_name :: ustring
  sg_room :: ustring
  sg_floor :: ustring
  sg_reason_score :: real

text \<open>The scope test of the loop over the pool (lines 431--457): \<open>True\<close> when the entity
  is appended to \<open>filtered_pool\<close>.\<close>

definition in_scope :: "pylib \<Rightarrow> obj \<Rightarrow> obj \<Rightarrow> bool" where
  "in_scope lib dev e =
     (let request_floor_norm = norm_loose lib (get_primary_field lib dev F_floor);
          request_room_norm = norm_loose lib (get_primary_field lib dev F_room);
          e_floor_norm = norm_loose lib (get_primary_field lib e F_floor);
          e_room_norm = norm_loose lib (get_primary_field lib e F_room)
      in if request_floor_norm \<noteq> [] \<and> e_floor_norm = [] then False
         else if request_floor_norm \<noteq> [] \<and>
                 \<not> (str_in request_floor_norm e_floor_norm \<or> str_in e_floor_norm request_floor_norm)
         then False
         else if request_room_norm \<noteq> [] \<and> e_room_norm = [] \<and> request_floor_norm \<noteq> [] \<and>
                 \<not> (str_in request_floor_norm e_floor_norm \<or> str_in e_floor_norm request_floor_norm)
         then False
         else if request_room_norm \<noteq> [] \<and> e_room_norm \<noteq> [] \<and>
                 \<not> (str_in request_room_norm e_room_norm \<or> str_in e_room_norm request_room_norm)
         then False
         else True)"

text \<open>The relaxed, ungated score of lines 471--474.\<close>

definition loose_score :: "pylib \<Rightarrow> obj \<Rightarrow> obj \<Rightarrow> real" where
  "loose_score lib dev e =
     0.15 * field_similarity lib (get_primary_field lib dev F_floor) (extract_field_candidates lib e F_floor) +
     0.40 * field_similarity lib (get_primary_field lib dev F_room) (extract_field_candidates lib e F_room) +
     0.30 * field_similarity lib (get_primary_field lib dev F_name) (extract_field_candidates lib e F_name) +
     0.15 * field_similarity lib (get_primary_field lib dev F_type) (extract_field_candidates lib e F_type)"

definition to_suggestion :: "pylib \<Rightarrow> obj \<times> real \<Rightarrow> suggestion" where
  "to_suggestion lib it =
     \<lparr>sg_entity_id = entity_id (fst it),
      sg_device_name = get_primary_field lib (fst it) F_name,
      sg_room = get_primary_field lib (fst it) F_room,
      sg_floor = get_primary_field lib (fst it) F_floor,
      sg_reason_score = snd it\<rparr>"

text \<open>\<open>loose_suggestions\<close> (lines 411--484); its \<open>cfg\<close> argument is never read.\<close>

definition loose_suggestions :: "pylib \<Rightarrow> obj \<Rightarrow> obj list \<Rightarrow> suggestion list" where
  "loose_suggestions lib dev pool =
     (let request_floor_norm = norm_loose lib (get_primary_field lib dev F_floor);
          filtered_pool = filter (in_scope lib dev) pool
      in if request_floor_norm \<noteq> [] \<and> filtered_pool = [] then []
         else map (to_suggestion lib)
                (take 3 (sort_desc snd (map (\<lambda>e. (e, loose_score lib dev e)) filtered_pool))))"

text \<open>One ranked target; \<open>tg_score\<close> is the composite score before the output rounds it to
  three decimals.\<close>

record target =
  tg_entity_id :: ustring
  tg_device_type :: ustring
  tg_device_name :: ustring
  tg_floor :: ustring
  tg_room :: ustring
  tg_score :: real
  tg_matched :: evidence

record request_echo =
  rq_floor :: ustring
  rq_room :: ustring
  rq_device_name :: ustring
  rq_device_type :: ustring
  rq_service :: ustring

record action =
  request :: request_echo
  targets :: "target list"
  disambiguation_required :: bool
  warnings :: "string list"
  suggestions_if_empty :: "suggestion list"

record matched_device =
  md_entity_id :: ustring
  md_service :: ustring

record result =
  intent :: ustring
  user_input :: ustring
  actions :: "action list"
  matched_devices :: "matched_device list"

text \<open>The batch \<open>process\<close> works on once the envelope of the payload is read (lines
  585--630): the device requests, the entities, the query, the intent, the alias tables
  and the configuration.\<close>

record batch =
  intent_devices :: "obj list"
  entities :: "obj list"
  user_query :: ustring
  intent_name :: ustring
  batch_aliases :: aliases
  batch_config :: config

text \<open>The accepted candidates of a pool with their scores (lines 657--661), and the
  list \<open>top\<close> of lines 663--664, named \<open>top_ranked\<close>.\<close>

definition scored :: "pylib \<Rightarrow> alias_indices \<Rightarrow> obj \<Rightarrow> obj list \<Rightarrow> aliases \<Rightarrow> config
    \<Rightarrow> (obj \<times> real \<times> evidence) list" where
  "scored lib indices dev pool als cfg =
     filter (\<lambda>it. fst (snd it) \<ge> 0)
       (map (\<lambda>e. (e, compute_scores_for_device lib indices dev e als cfg)) pool)"

definition top_ranked :: "pylib \<Rightarrow> alias_indices \<Rightarrow> obj \<Rightarrow> obj list \<Rightarrow> aliases \<Rightarrow> config
    \<Rightarrow> (obj \<times> real \<times> evidence) list" where
  "top_ranked lib indices dev pool als cfg =
     slice_to (get_or (cfg_topK cfg) 100)
       (sort_desc (\<lambda>it. fst (snd it)) (scored lib indices dev pool als cfg))"

definition to_target :: "pylib \<Rightarrow> obj \<times> real \<times> evidence \<Rightarrow> target" where
  "to_target lib it =
     \<lparr>tg_entity_id = entity_id (fst it),
      tg_device_type = str_lower lib (device_type (fst it)),
      tg_device_name = get_primary_field lib (fst it) F_name,
      tg_floor = get_primary_field lib (fst it) F_floor,
      tg_room = get_primary_field lib (fst it) F_room,
      tg_score = fst (snd it),
      tg_matched = snd (snd it)\<rparr>"

text \<open>The body of the loop over the device requests (lines 653--711): the action of one
  request and the matched devices it adds.\<close>

definition process_device :: "pylib \<Rightarrow> alias_indices \<Rightarrow> obj list \<Rightarrow> type_index \<Rightarrow> aliases
    \<Rightarrow> config \<Rightarrow> obj \<Rightarrow> action \<times> matched_device list" where
  "process_device lib indices es index als cfg dev =
     (let pool = filter_candidates lib dev es index;
          tp = top_ranked lib indices dev pool als cfg;
          suggestions = (if tp = [] then loose_suggestions lib dev pool else []);
          gap = get_or (cfg_gap cfg) 0.08
      in (\<lparr>request = \<lparr>rq_floor = get_primary_field lib dev F_floor,
                       rq_room = get_primary_field lib dev F_room,
                       rq_device_name = get_primary_field lib dev F_name,
                       rq_device_type = get_primary_field lib dev F_type,
                       rq_service = service dev\<rparr>,
           targets = map (to_target lib) tp,
           disambiguation_required =
             (length tp \<ge> 2 \<and> fst (snd (tp ! 0)) - fst (snd (tp ! 1)) < gap),
           warnings = [],
           suggestions_if_empty = suggestions\<rparr>,
          map (\<lambda>it. \<lparr>md_entity_id = entity_id (fst it), md_service = service dev\<rparr>) tp))"

text \<open>\<open>process\<close> (lines 571--713) as a state transformer on the module-level
  \<open>_alias_indices\<close>: it takes the indices left by earlier calls and returns the output
  together with the indices it leaves. The two caches are the other module state; the
  calls of \<open>normalize\<close> and \<open>field_similarity\<close> are taken at the values they compute, which
  is what the cached functions return.\<close>

definition fresh_indices :: "pylib \<Rightarrow> aliases \<Rightarrow> alias_indices" where
  "fresh_indices lib als =
     [Rooms \<mapsto> build_alias_reverse_index lib (rooms als),
      Floors \<mapsto> build_alias_reverse_index lib (floors als),
      Device_types \<mapsto> build_alias_reverse_index lib (device_types als)]"

definition process :: "pylib \<Rightarrow> alias_indices \<Rightarrow> batch \<Rightarrow> result \<times> alias_indices" where
  "process lib stale b =
     (let indices = fresh_indices lib (batch_aliases b);
          index = build_type_index lib (entities b);
          results = map (process_device lib indices (entities b) index (batch_aliases b)
                           (batch_config b)) (intent_devices b)
      in (\<lparr>intent = intent_name b, user_input = user_query b,
           actions = map fst results, matched_devices = concat (map snd results)\<rparr>,
          indices))"

text \<open>A long-lived service: the batches of a history run one after the other on the
  same module state.\<close>

fun run_batches :: "pylib \<Rightarrow> alias_indices \<Rightarrow> batch list \<Rightarrow> alias_indices" where
  "run_batches lib st [] = st"
| "run_batches lib st (b # bs) = run_batches lib (snd (process lib st b)) bs"


section \<open>matcher_engine.py: the module state\<close>

text \<open>
  The definitions above take every call of \<open>normalize\<close> and \<open>field_similarity\<close> at the value
  it computes, and the alias indices as an argument. The module itself keeps three pieces
  of state from one call of \<open>process\<close> to the next: \<open>_alias_indices\<close> (line 161),
  \<open>_normalize_cache\<close> and \<open>_tfidf_cache\<close> (lines 60--61). The functions of this section are
  the functions of the source once more, in the state monad over that state; their names
  end in \<open>_st\<close>.

  The floor and room fields of a device request are read here as JSON scalars: a string,
  an integer or a boolean (an absent key and \<open>null\<close> are the empty string, as before).
  \<open>py_str\<close> is \<open>str()\<close>, \<open>truthy\<close> the truth test of \<open>if v\<close>, and \<open>py_key\<close> the identity of the
  value as a dict key: \<open>True\<close> and \<open>1\<close> are one key, so are \<open>False\<close> and \<open>0\<close>, and no string
  equals a number. Floats, lists and objects are not covered. The fields of an entity and
  the names, types, ids and services of a request are text (a number among the floor
  fields of an entity makes \<open>sorted\<close> raise at line 198, and a number as device name can make
  line 342 raise). The output records are the ones above: where the source echoes a
  request value, the record holds its text.
\<close>

datatype scalar = S_text ustring | S_int int | S_bool bool

fun digits :: "nat \<Rightarrow> ustring" where
  "digits n = (if n < 10 then [48 + n] else digits (n div 10) @ [48 + n mod 10])"

declare digits.simps [simp del]

fun py_str :: "scalar \<Rightarrow> ustring" where
  "py_str (S_text s) = s"
| "py_str (S_int n) = (if n < 0 then 45 # digits (nat (- n)) else digits (nat n))"
| "py_str (S_bool b) = (if b then ustr ''True'' else ustr ''False'')"

fun truthy :: "scalar \<Rightarrow> bool" where
  "truthy (S_text s) = (s \<noteq> [])"
| "truthy (S_int n) = (n \<noteq> 0)"
| "truthy (S_bool b) = b"

datatype key = Key_text ustring | Key_num int

fun py_key :: "scalar \<Rightarrow> key" where
  "py_key (S_text s) = Key_text s"
| "py_key (S_int n) = Key_num n"
| "py_key (S_bool b) = Key_num (if b then 1 else 0)"

text \<open>The three module-level variables.\<close>

record module_state =
  g_alias_indices :: alias_indices
  g_normalize_cache :: "(key, ustring) lru"
  g_tfidf_cache :: "(key \<times> ustring list, real) lru"

text \<open>\<open>normalize\<close> (lines 65--81) and \<open>field_similarity\<close> (lines 194--229) with their caches,
  which are keyed by the value as it was passed. No candidate is \<open>None\<close>.\<close>

definition normalize_st :: "pylib \<Rightarrow> scalar \<Rightarrow> (module_state, ustring) state" where
  "normalize_st lib text =
     (if \<not> truthy text then State_Monad.return []
      else do {
        s \<leftarrow> State_Monad.get;
        case lru_get (g_normalize_cache s) (py_key text) of
          (Some cached, cache1) \<Rightarrow> do {
            State_Monad.set (s\<lparr>g_normalize_cache := cache1\<rparr>);
            State_Monad.return cached
          }
        | (None, cache1) \<Rightarrow> do {
            let result = strip (filter is_keep (filter (\<lambda>c. \<not> is_dash c)
                           (filter (\<lambda>c. \<not> is_space c) (str_lower lib (py_str text)))));
            State_Monad.set (s\<lparr>g_normalize_cache := lru_set 1000 cache1 (py_key text) result\<rparr>);
            State_Monad.return result
          }
      })"


text \<open>\<open>build_alias_reverse_index\<close> (lines 146--157) and \<open>expand_alias_fast\<close> (164--174), which
  reads \<open>_alias_indices\<close>.\<close>

primrec index_aliases_st ::
  "pylib \<Rightarrow> ustring \<Rightarrow> ustring list \<Rightarrow> alias_index \<Rightarrow> (module_state, alias_index) state" where
  "index_aliases_st lib canonical_norm [] index = State_Monad.return index"
| "index_aliases_st lib canonical_norm (alias # rest) index = do {
     alias_norm \<leftarrow> normalize_st lib (S_text alias);
     index_aliases_st lib canonical_norm rest
       (if alias_norm \<noteq> [] then index(alias_norm \<mapsto> canonical_norm) else index)
   }"

primrec index_entries_st ::
  "pylib \<Rightarrow> alias_map \<Rightarrow> alias_index \<Rightarrow> (module_state, alias_index) state" where
  "index_entries_st lib [] index = State_Monad.return index"
| "index_entries_st lib (entry # rest) index = do {
     canonical_norm \<leftarrow> normalize_st lib (S_text (fst entry));
     index1 \<leftarrow> (if canonical_norm \<noteq> []
                then index_aliases_st lib canonical_norm (snd entry)
                       (index(canonical_norm \<mapsto> canonical_norm))
                else State_Monad.return index);
     index_entries_st lib rest index1
   }"

definition build_alias_reverse_index_st ::
  "pylib \<Rightarrow> alias_map \<Rightarrow> (module_state, alias_index) state" where
  "build_alias_reverse_index_st lib alias_map = index_entries_st lib alias_map Map.empty"





text \<open>A device request, and \<open>extract_field_candidates\<close> and \<open>get_primary_field\<close> (lines
  107--142) on it. \<open>q_level\<close> holds \<open>str(level or '')\<close>.\<close>

record request =
  q_floor_name_en :: scalar
  q_floor_type :: scalar
  q_floor_name :: scalar
  q_level :: ustring
  q_room_name_en :: scalar
  q_room_type :: scalar
  q_room_name :: scalar
  q_device_name :: ustring
  q_friendly_name :: ustring
  q_device_type :: ustring
  q_entity_id :: ustring
  q_service :: ustring






















definition tfidf_entries_ok :: "pylib \<Rightarrow> (key \<times> ustring list, real) lru \<Rightarrow> bool" where
  "tfidf_entries_ok lib cache =
     list_all (\<lambda>kv. case fst (fst kv) of
                      Key_text q \<Rightarrow> snd kv = field_similarity lib q (snd (fst kv))
                    | Key_num n \<Rightarrow> True) cache"


definition lru_touch :: "nat \<Rightarrow> ('k, 'v) lru \<Rightarrow> 'k \<Rightarrow> 'v \<Rightarrow> ('k, 'v) lru" where
  "lru_touch maxsize cache k v =
     (case map_of cache k of
        Some c \<Rightarrow> filter (\<lambda>kv. fst kv \<noteq> k) cache @ [(k, c)]
      | None \<Rightarrow> lru_set maxsize cache k v)"

definition norm_touch :: "pylib \<Rightarrow> ustring \<Rightarrow> (key, ustring) lru \<Rightarrow> (key, ustring) lru" where
  "norm_touch lib t cache =
     (if t = [] then cache else lru_touch 1000 cache (Key_text t) (normalize_str lib t))"

definition fs_norm_touch ::
  "pylib \<Rightarrow> ustring \<Rightarrow> ustring list \<Rightarrow> (key \<times> ustring list, real) lru
    \<Rightarrow> (key, ustring) lru \<Rightarrow> (key, ustring) lru" where
  "fs_norm_touch lib q cands tfidf cache =
     (if map_of tfidf (Key_text q, sort cands) = None
      then fold (norm_touch lib) (filter (\<lambda>c. c \<noteq> []) cands) (norm_touch lib q cache)
      else cache)"


section \<open>matcher_engine.py: input validation and the entry point\<close>

text \<open>A parsed JSON payload. A \<open>JDict\<close> holds the items of the parsed dict, whose keys
  are distinct.\<close>

datatype json =
  JNull | JBool bool | JNum real | JStr ustring | JList "json list"
  | JDict "(ustring \<times> json) list"

definition is_dict :: "json \<Rightarrow> bool" where
  "is_dict v = (case v of JDict kv \<Rightarrow> True | _ \<Rightarrow> False)"

definition is_list :: "json \<Rightarrow> bool" where
  "is_list v = (case v of JList xs \<Rightarrow> True | _ \<Rightarrow> False)"

text \<open>\<open>d.get(key, {})\<close> on a value already known to be a dict, and \<open>key in d\<close>.\<close>

definition items :: "json \<Rightarrow> (ustring \<times> json) list" where
  "items v = (case v of JDict kv \<Rightarrow> kv | _ \<Rightarrow> [])"

definition get_dict :: "json \<Rightarrow> ustring \<Rightarrow> json" where
  "get_dict v key = get_or (map_of (items v) key) (JDict [])"

definition has_key :: "json \<Rightarrow> ustring \<Rightarrow> bool" where
  "has_key v key = (map_of (items v) key \<noteq> None)"

text \<open>\<open>validate_input\<close> (lines 513--567).\<close>

definition validate_input :: "json \<Rightarrow> bool \<times> string" where
  "validate_input payload =
     (if \<not> is_dict payload then (False, ''Payload must be a dictionary'')
      else if has_key payload (ustr ''intention_data'') \<or> has_key payload (ustr ''entities_data'') then
        (let intention_obj = get_dict payload (ustr ''intention_data'')
         in if \<not> is_dict intention_obj then (False, '''intention_data' must be a dictionary'')
            else let intention_data = get_dict intention_obj (ustr ''data'')
            in if \<not> is_dict intention_data
               then (False, '''intention_data.data' must be a dictionary'')
            else if \<not> has_key intention_data (ustr ''devices'')
               then (False, ''Missing 'intention_data.data.devices' field'')
            else if \<not> is_list (get_dict intention_data (ustr ''devices''))
               then (False, '''intention_data.data.devices' must be a list'')
            else let entities_obj = get_dict payload (ustr ''entities_data'')
            in if \<not> is_dict entities_obj then (False, '''entities_data' must be a dictionary'')
            else let entities_data = get_dict entities_obj (ustr ''data'')
            in if \<not> is_dict entities_data
               then (False, '''entities_data.data' must be a dictionary'')
            else if \<not> has_key entities_data (ustr ''entities'')
               then (False, ''Missing 'entities_data.data.entities' field'')
            else if \<not> is_list (get_dict entities_data (ustr ''entities''))
               then (False, '''entities_data.data.entities' must be a list'')
            else (True, []))
      else if \<not> has_key payload (ustr ''entities'') then (False, ''Missing 'entities' field'')
      else if \<not> is_list (get_dict payload (ustr ''entities''))
        then (False, '''entities' must be a list'')
      else if \<not> has_key payload (ustr ''intent_devices'')
        then (False, ''Missing 'intent_devices' field'')
      else if \<not> is_list (get_dict payload (ustr ''intent_devices''))
        then (False, '''intent_devices' must be a list'')
      else (True, []))"

text \<open>
  What \<open>main\<close> prints for a payload that parsed as JSON (lines 775--788, and 742--758 of
  the daemon loop): the error object of a failed validation, else the result of
  \<open>process(payload)\<close>, or the error object with a traceback when that call raises. The
  call on the raw payload is the argument \<open>proc\<close>, \<open>Inl\<close> standing for an exception.
\<close>

datatype 'r printed = Error_object string | Error_traceback string | Result_object 'r

definition main :: "(json \<Rightarrow> string + 'r) \<Rightarrow> json \<Rightarrow> 'r printed list" where
  "main proc payload =
     (case validate_input payload of
        (valid, error_msg) \<Rightarrow>
          if \<not> valid then [Error_object error_msg]
          else (case proc payload of
                  Inl e \<Rightarrow> [Error_traceback e]
                | Inr r \<Rightarrow> [Result_object r]))"

text \<open>The device sequence and the entity sequence a payload has to carry: in the wrapped
  format (a payload with the key \<open>intention_data\<close> or \<open>entities_data\<close>) they are
  \<open>intention_data.data.devices\<close> and \<open>entities_data.data.entities\<close>, otherwise the top-level
  \<open>intent_devices\<close> and \<open>entities\<close>. These are the two formats \<open>validate_input\<close> knows; a
  payload without the two wrapper keys is held to the top-level format whatever else it
  carries.\<close>

fun lookup_path :: "json \<Rightarrow> ustring list \<Rightarrow> json option" where
  "lookup_path v [] = Some v"
| "lookup_path (JDict kv) (k # ks) =
     (case map_of kv k of None \<Rightarrow> None | Some w \<Rightarrow> lookup_path w ks)"
| "lookup_path v (k # ks) = None"

definition wrapped :: "json \<Rightarrow> bool" where
  "wrapped payload \<longleftrightarrow>
     has_key payload (ustr ''intention_data'') \<or> has_key payload (ustr ''entities_data'')"

definition device_sequence :: "json \<Rightarrow> json option" where
  "device_sequence payload =
     (if wrapped payload
      then lookup_path payload [ustr ''intention_data'', ustr ''data'', ustr ''devices'']
      else lookup_path payload [ustr ''intent_devices''])"

definition entity_sequence :: "json \<Rightarrow> json option" where
  "entity_sequence payload =
     (if wrapped payload
      then lookup_path payload [ustr ''entities_data'', ustr ''data'', ustr ''entities'']
      else lookup_path payload [ustr ''entities''])"

definition present_list :: "json option \<Rightarrow> bool" where
  "present_list v = (case v of Some (JList xs) \<Rightarrow> True | _ \<Rightarrow> False)"


section \<open>matcher.py: the first-generation scorer\<close>

text \<open>The module constants (lines 21--100).\<close>

definition WEIGHTS :: weights where
  "WEIGHTS = \<lparr>w_F = 0.15, w_R = 0.40, w_N = 0.30, w_T = 0.15\<rparr>"

record thresholds1 =
  t_floor :: real
  t_room :: real
  t_type :: real
  t_name :: real

definition THRESHOLDS :: thresholds1 where
  "THRESHOLDS = \<lparr>t_floor = 0.70, t_room = 0.70, t_type = 0.65, t_name = 0.45\<rparr>"

definition LOCATION_BONUS :: real where
  "LOCATION_BONUS = 0.4"

definition GENERIC_DEVICE_NAMES :: "ustring set" where
  "GENERIC_DEVICE_NAMES = set [
    ustr ''light'', ustr ''lights'', ustr ''lamp'', ustr ''lamps'', ustr ''deng'',
    [28783], [28783, 20809], [28783, 20855], [29031, 26126], ustr ''switch'',
    ustr ''switches'', ustr ''kaiguan'', [24320, 20851], ustr ''socket'',
    ustr ''sockets'', ustr ''chazuo'', [25554, 24231], ustr ''outlet'', ustr ''plug'',
    ustr ''ac'', ustr ''aircon'', ustr ''kongtiao'', [31354, 35843], [20919, 27668],
    ustr ''climate'', ustr ''fan'', ustr ''fans'', ustr ''fengshan'', [39118, 25159],
    ustr ''cover'', ustr ''covers'', ustr ''chuanglian'', [31383, 24088],
    ustr ''curtain'', ustr ''blind'', ustr ''lock'', ustr ''locks'', ustr ''suo'',
    [38145], [38376, 38145], ustr ''camera'', ustr ''cameras'', ustr ''cam'',
    ustr ''shexiangtou'', [25668, 20687, 22836], [30417, 25511], ustr ''sensor'',
    ustr ''sensors'', ustr ''chuanganqi'', [20256, 24863, 22120], ustr ''temperature'',
    ustr ''temp'', ustr ''wendu'', [28201, 24230], ustr ''temperaturesensor'',
    [28201, 24230, 20256, 24863, 22120], ustr ''humidity'', ustr ''shidu'',
    [28287, 24230], [28287, 24230, 20256, 24863, 22120], ustr ''motion'',
    ustr ''renti'', [20154, 20307]]"

definition FLOOR_ALIASES :: alias_map where
  "FLOOR_ALIASES =
    [(ustr ''1'', [[19968, 27004], [49, 27004], ustr ''yilou'', ustr ''first'',
        ustr ''firstfloor'', ustr ''first_floor'', ustr ''ground'']),
     (ustr ''2'', [[20108, 27004], [50, 27004], ustr ''erlou'', ustr ''second'',
        ustr ''secondfloor'', ustr ''second_floor'']),
     (ustr ''3'', [[19977, 27004], [51, 27004], ustr ''sanlou'', ustr ''third'',
        ustr ''thirdfloor'', ustr ''third_floor''])]"

definition ROOM_ALIASES :: alias_map where
  "ROOM_ALIASES =
    [(ustr ''living_room'', [[23458, 21381], ustr ''keting'', ustr ''living'',
        ustr ''livingroom'', ustr ''living_room'', ustr ''lounge'']),
     (ustr ''bedroom'', [[21351, 23460], ustr ''woshi'', ustr ''bedroom'', ustr ''bed_room'']),
     (ustr ''master_bedroom'', [[20027, 21351], ustr ''zhuwo'', ustr ''master'',
        ustr ''masterbedroom'', ustr ''master_bedroom'']),
     (ustr ''kitchen'', [[21416, 25151], ustr ''chufang'', ustr ''kitchen'']),
     (ustr ''bathroom'', [[28020, 23460], [21355, 29983, 38388], ustr ''yushi'',
        ustr ''weishengjian'', ustr ''bathroom'', ustr ''washroom'']),
     (ustr ''study'', [[20070, 25151], ustr ''shufang'', ustr ''study'', ustr ''office'']),
     (ustr ''dining_room'', [[39184, 21381], ustr ''canting'', ustr ''dining'',
        ustr ''diningroom'', ustr ''dining_room'']),
     (ustr ''garage'', [[36710, 24211], ustr ''cheku'', ustr ''garage'']),
     (ustr ''garden'', [[33457, 22253], [21518, 38498], ustr ''huayuan'', ustr ''houyuan'',
        ustr ''garden'', ustr ''backyard'', ustr ''yard'']),
     (ustr ''balcony'', [[38451, 21488], ustr ''yangtai'', ustr ''balcony'']),
     (ustr ''entertainment'', [[23089, 20048, 23460], [24433, 38899, 23460], ustr ''yuleshi'',
        ustr ''entertainment'', ustr ''tvroom'', ustr ''tv_room''])]"

definition HA_DOMAIN_ALIASES :: alias_map where
  "HA_DOMAIN_ALIASES =
    [(ustr ''light'', [ustr ''light'', ustr ''lights'', ustr ''lamp'', ustr ''deng'', [28783]]),
     (ustr ''switch'', [ustr ''switch'', ustr ''kaiguan'', [24320, 20851], ustr ''socket'',
        ustr ''chazuo'', [25554, 24231]]),
     (ustr ''climate'', [ustr ''climate'', ustr ''ac'', ustr ''aircon'', ustr ''kongtiao'',
        [31354, 35843]]),
     (ustr ''fan'', [ustr ''fan'', ustr ''fengshan'', [39118, 25159]]),
     (ustr ''cover'', [ustr ''cover'', ustr ''chuanglian'', [31383, 24088]]),
     (ustr ''camera'', [ustr ''camera'', ustr ''cam'', ustr ''shexiangtou'', [25668, 20687, 22836]]),
     (ustr ''sensor'', [ustr ''sensor'', ustr ''chuanganqi'', [20256, 24863, 22120]]),
     (ustr ''binary_sensor'', [ustr ''binary_sensor'', ustr ''binarysensor'', ustr ''presence'',
        [23384, 22312], [22312, 23478]]),
     (ustr ''occupancy'', [ustr ''occupancy'', ustr ''occupied'', [21344, 29992],
        [21344, 29992, 20256, 24863, 22120]]),
     (ustr ''motion'', [ustr ''motion'', [36816, 21160], [36816, 21160, 20256, 24863, 22120],
        [20154, 20307, 20256, 24863, 22120]])]"

text \<open>\<open>normalize_text\<close> (lines 105--115) and \<open>fuzzy_match\<close> (118--124).\<close>

definition normalize_text :: "pylib \<Rightarrow> ustring \<Rightarrow> ustring" where
  "normalize_text lib text =
     (if text = [] then []
      else strip (filter is_keep
             (filter (\<lambda>c. \<not> is_dash c)
                (filter (\<lambda>c. \<not> is_space c) (str_lower lib text)))))"

definition fuzzy_match :: "pylib \<Rightarrow> ustring \<Rightarrow> ustring \<Rightarrow> bool" where
  "fuzzy_match lib a b =
     (if a = [] \<or> b = [] then False else normalize_text lib a = normalize_text lib b)"

text \<open>\<open>str.isdigit()\<close> as applied to a normal form, whose only digits are \<open>0\<close>..\<open>9\<close>.\<close>

definition isdigit :: "ustring \<Rightarrow> bool" where
  "isdigit s \<longleftrightarrow> s \<noteq> [] \<and> list_all (\<lambda>c. 48 \<le> c \<and> c \<le> 57) s"

text \<open>The table scans of \<open>normalize_floor\<close> (lines 129--149), \<open>normalize_room\<close> (152--168)
  and \<open>normalize_domain\<close> (171--187): the key of the first entry that matches. The floor
  table compares with the key as written, the other two with the key's normal form.\<close>

fun scan_aliases :: "pylib \<Rightarrow> bool \<Rightarrow> alias_map \<Rightarrow> ustring \<Rightarrow> ustring option" where
  "scan_aliases lib raw_key [] normalized = None"
| "scan_aliases lib raw_key ((k, als) # rest) normalized =
     (if normalized = (if raw_key then k else normalize_text lib k) then Some k
      else if list_ex (\<lambda>alias. normalized = normalize_text lib alias) als then Some k
      else scan_aliases lib raw_key rest normalized)"

definition normalize_floor :: "pylib \<Rightarrow> ustring \<Rightarrow> ustring" where
  "normalize_floor lib input_text =
     (if input_text = [] then []
      else let normalized = normalize_text lib input_text
           in if isdigit normalized then normalized
              else (case scan_aliases lib True FLOOR_ALIASES normalized of
                      Some lvl \<Rightarrow> lvl | None \<Rightarrow> normalized))"

definition normalize_room :: "pylib \<Rightarrow> alias_map \<Rightarrow> ustring \<Rightarrow> ustring" where
  "normalize_room lib room_aliases input_text =
     (if input_text = [] then []
      else let normalized = normalize_text lib input_text
           in (case scan_aliases lib False room_aliases normalized of
                 Some rtype \<Rightarrow> rtype | None \<Rightarrow> normalized))"

definition normalize_domain :: "pylib \<Rightarrow> ustring \<Rightarrow> ustring" where
  "normalize_domain lib input_text =
     (if input_text = [] then []
      else let normalized = normalize_text lib input_text
           in (case scan_aliases lib False HA_DOMAIN_ALIASES normalized of
                 Some dkey \<Rightarrow> dkey | None \<Rightarrow> str_lower lib input_text))"

definition is_generic_device_name :: "pylib \<Rightarrow> ustring \<Rightarrow> bool" where
  "is_generic_device_name lib name =
     (if name = [] then False else normalize_text lib name \<in> GENERIC_DEVICE_NAMES)"

text \<open>
  The score of \<open>slot_similarity\<close> (lines 248--285) with \<open>calculate_tfidf_similarity\<close>
  (201--245) inlined: 1.0 on an exact match of normal forms, else the largest TF-IDF
  similarity, which is 0.0 when every candidate text is empty or the vectoriser raises.
  The \<open>hit\<close> text it also returns is not modelled.
\<close>

definition slot_similarity :: "pylib \<Rightarrow> ustring \<Rightarrow> ustring list \<Rightarrow> real" where
  "slot_similarity lib query candidates =
     (let q = normalize_text lib query;
          valid_candidates = filter (\<lambda>c. c \<noteq> []) candidates;
          candidate_texts = map (normalize_text lib) valid_candidates
      in if q = [] then 0
         else if valid_candidates = [] then 0
         else if list_ex (\<lambda>c. c \<noteq> [] \<and> q = c) candidate_texts then 1
         else if list_all (\<lambda>c. c = []) candidate_texts then 0
         else (case tfidf_sims_max lib q candidate_texts of None \<Rightarrow> 0 | Some v \<Rightarrow> v))"

text \<open>\<open>extract_location_from_name\<close> (lines 290--313); \<open>None\<close> stands for \<open>(False, "")\<close>.\<close>

fun location_scan :: "pylib \<Rightarrow> alias_map \<Rightarrow> ustring \<Rightarrow> ustring option" where
  "location_scan lib [] normalized_name = None"
| "location_scan lib ((rtype, als) # rest) normalized_name =
     (if str_in (normalize_text lib rtype) normalized_name then Some rtype
      else if list_ex (\<lambda>alias. str_in (normalize_text lib alias) normalized_name) als
      then Some rtype
      else location_scan lib rest normalized_name)"

definition extract_location_from_name :: "pylib \<Rightarrow> alias_map \<Rightarrow> ustring \<Rightarrow> ustring option" where
  "extract_location_from_name lib room_aliases dname =
     (if dname = [] then None else location_scan lib room_aliases (normalize_text lib dname))"


text \<open>The locals of \<open>score_entity\<close> (lines 318--546), one definition each. The table
  \<open>ROOM_ALIASES\<close> can grow at run time, so it is an argument.\<close>

definition se_floor_q :: "obj \<Rightarrow> ustring" where
  "se_floor_q device = first_nonempty [floor_name_en device, floor_type device, floor_name device]"

definition se_room_q :: "obj \<Rightarrow> ustring" where
  "se_room_q device = first_nonempty [room_name_en device, room_type device, room_name device]"

definition se_name_q :: "obj \<Rightarrow> ustring" where
  "se_name_q device = first_nonempty [device_name_en device, device_name device]"

definition se_type_q :: "pylib \<Rightarrow> obj \<Rightarrow> ustring" where
  "se_type_q lib device =
     (let t = str_lower lib (device_type device)
      in if t = [] \<and> service device \<noteq> []
         then str_lower lib (split_dot_head (service device)) else t)"

definition se_floor_score :: "pylib \<Rightarrow> obj \<Rightarrow> obj \<Rightarrow> real" where
  "se_floor_score lib device entity =
     (let fq = se_floor_q device
      in if fq = [] then 0
         else if fuzzy_match lib fq (floor_name entity) \<or> fuzzy_match lib fq (floor_name_en entity) \<or>
                 fuzzy_match lib fq (floor_type entity) \<or> fuzzy_match lib fq (level entity)
         then 1
         else if normalize_floor lib fq = normalize_floor lib (floor_name entity) \<or>
                 normalize_floor lib fq = normalize_floor lib (floor_name_en entity) \<or>
                 normalize_floor lib fq = normalize_floor lib (floor_type entity) \<or>
                 normalize_floor lib fq = level entity
         then 1
         else slot_similarity lib fq
                [floor_name entity, floor_name_en entity, floor_type entity, level entity])"

definition se_room_score :: "pylib \<Rightarrow> alias_map \<Rightarrow> obj \<Rightarrow> obj \<Rightarrow> real" where
  "se_room_score lib ra device entity =
     (let rq = se_room_q device
      in if rq = [] then 0
         else if fuzzy_match lib rq (room_name entity) \<or> fuzzy_match lib rq (room_name_en entity) \<or>
                 fuzzy_match lib rq (room_type entity)
         then 1
         else if normalize_room lib ra rq = normalize_room lib ra (room_name entity) \<or>
                 normalize_room lib ra rq = normalize_room lib ra (room_name_en entity) \<or>
                 normalize_room lib ra rq = normalize_room lib ra (room_type entity)
         then 1
         else slot_similarity lib rq [room_name entity, room_name_en entity, room_type entity])"

definition se_name_score :: "pylib \<Rightarrow> obj \<Rightarrow> obj \<Rightarrow> real" where
  "se_name_score lib device entity =
     slot_similarity lib (se_name_q device)
       [device_name entity, first_nonempty [friendly_name entity, top_friendly_name entity]]"

definition se_location_bonus :: "pylib \<Rightarrow> alias_map \<Rightarrow> obj \<Rightarrow> obj \<Rightarrow> real" where
  "se_location_bonus lib ra device entity =
     (if se_name_q device = [] then 0
      else (case extract_location_from_name lib ra (se_name_q device) of
              None \<Rightarrow> 0
            | Some extracted \<Rightarrow>
                if extracted \<noteq> [] \<and>
                   (extracted = normalize_room lib ra (room_name entity) \<or>
                    extracted = normalize_room lib ra (room_name_en entity) \<or>
                    extracted = normalize_room lib ra (room_type entity))
                then LOCATION_BONUS else 0))"

definition se_e_domain :: "obj \<Rightarrow> ustring" where
  "se_e_domain entity = (if entity_id entity \<noteq> [] then split_dot_head (entity_id entity) else [])"

definition se_type_score :: "pylib \<Rightarrow> obj \<Rightarrow> obj \<Rightarrow> real" where
  "se_type_score lib device entity =
     (let tq = se_type_q lib device;
          e_type = str_lower lib (device_type entity);
          e_domain = se_e_domain entity;
          norm_type_q = normalize_domain lib tq;
          norm_e_domain = normalize_domain lib e_domain;
          norm_e_type = normalize_domain lib e_type
      in if norm_type_q = [] then 0
         else if norm_type_q = norm_e_type \<or> normalize_text lib tq = normalize_text lib e_type
         then 1
         else if norm_type_q = ustr ''occupancy'' \<or> norm_type_q = ustr ''motion'' then 0
         else if norm_type_q = norm_e_domain \<or> fuzzy_match lib tq e_domain \<or>
                 fuzzy_match lib tq e_type
         then 1
         else slot_similarity lib norm_type_q [norm_e_domain, e_type])"

definition se_evidence :: "pylib \<Rightarrow> alias_map \<Rightarrow> obj \<Rightarrow> obj \<Rightarrow> evidence" where
  "se_evidence lib ra device entity =
     \<lparr>ev_floor = (se_floor_q device, se_floor_score lib device entity),
      ev_room = (se_room_q device, se_room_score lib ra device entity),
      ev_device_name = (se_name_q device, se_name_score lib device entity),
      ev_device_type = (se_type_q lib device, se_type_score lib device entity)\<rparr>"

text \<open>The two special modes (lines 479, 497) and the four threshold tests (489--492).\<close>

definition is_all_devices :: "pylib \<Rightarrow> obj \<Rightarrow> bool" where
  "is_all_devices lib device \<longleftrightarrow>
     se_floor_q device = [] \<and> se_room_q device = [] \<and> se_name_q device = [] \<and>
     se_type_q lib device \<noteq> []"

definition floor_only_mode :: "pylib \<Rightarrow> obj \<Rightarrow> bool" where
  "floor_only_mode lib device \<longleftrightarrow>
     se_floor_q device \<noteq> [] \<and> se_room_q device = [] \<and> se_name_q device = [] \<and>
     se_type_q lib device \<noteq> []"

definition se_floor_pass :: "pylib \<Rightarrow> obj \<Rightarrow> obj \<Rightarrow> bool" where
  "se_floor_pass lib device entity =
     (if se_floor_q device \<noteq> [] then se_floor_score lib device entity \<ge> t_floor THRESHOLDS
      else True)"

definition se_room_pass :: "pylib \<Rightarrow> alias_map \<Rightarrow> obj \<Rightarrow> obj \<Rightarrow> bool" where
  "se_room_pass lib ra device entity =
     (if se_room_q device \<noteq> [] then se_room_score lib ra device entity \<ge> t_room THRESHOLDS
      else True)"

definition se_name_pass :: "pylib \<Rightarrow> obj \<Rightarrow> obj \<Rightarrow> bool" where
  "se_name_pass lib device entity =
     (if se_name_q device \<noteq> [] then se_name_score lib device entity \<ge> t_name THRESHOLDS
      else True)"

definition se_type_pass :: "pylib \<Rightarrow> obj \<Rightarrow> obj \<Rightarrow> bool" where
  "se_type_pass lib device entity =
     (if se_type_q lib device \<noteq> [] then se_type_score lib device entity \<ge> 0.90 else True)"

text \<open>\<open>True\<close> when one of the three mode branches of lines 496--514 returns the score -1.\<close>

definition se_rejected :: "pylib \<Rightarrow> alias_map \<Rightarrow> obj \<Rightarrow> obj \<Rightarrow> bool" where
  "se_rejected lib ra device entity =
     (if floor_only_mode lib device then
        \<not> se_floor_pass lib device entity \<or> \<not> se_type_pass lib device entity \<or>
        se_type_score lib device entity < 0.95
      else if se_name_q device \<noteq> [] \<and> \<not> is_generic_device_name lib (se_name_q device) then
        (\<not> se_room_pass lib ra device entity \<or> \<not> se_name_pass lib device entity \<or>
         \<not> se_type_pass lib device entity) \<or>
        (se_floor_q device \<noteq> [] \<and> \<not> se_floor_pass lib device entity)
      else
        (\<not> se_room_pass lib ra device entity \<or> \<not> se_type_pass lib device entity) \<or>
        (se_floor_q device \<noteq> [] \<and> \<not> se_floor_pass lib device entity))"

text \<open>The weighted sum of lines 517--523, the exact-match bonuses of lines 529--534 and
  the domain check of lines 537--544.\<close>

definition se_base_score :: "pylib \<Rightarrow> alias_map \<Rightarrow> obj \<Rightarrow> obj \<Rightarrow> real" where
  "se_base_score lib ra device entity =
     (let floor_score_weight =
            (if se_floor_q device \<noteq> [] then se_floor_score lib device entity else 0.90);
          name_score_val =
            (if se_name_q device \<noteq> [] \<and> \<not> is_generic_device_name lib (se_name_q device)
             then se_name_score lib device entity else 0.85)
      in w_F WEIGHTS * floor_score_weight + w_R WEIGHTS * se_room_score lib ra device entity +
         w_N WEIGHTS * name_score_val + w_T WEIGHTS * se_type_score lib device entity)"

definition se_exact_bonus :: "pylib \<Rightarrow> alias_map \<Rightarrow> obj \<Rightarrow> obj \<Rightarrow> real" where
  "se_exact_bonus lib ra device entity =
     (if se_room_q device \<noteq> [] \<and> se_room_score lib ra device entity \<ge> 0.98 then 0.10 else 0) +
     (if se_name_q device \<noteq> [] \<and> \<not> is_generic_device_name lib (se_name_q device) \<and>
         se_name_score lib device entity \<ge> 0.98 then 0.05 else 0) +
     (if se_floor_q device \<noteq> [] \<and> se_floor_score lib device entity \<ge> 0.98 then 0.03 else 0)"

definition se_svc_domain :: "pylib \<Rightarrow> obj \<Rightarrow> ustring" where
  "se_svc_domain lib device =
     normalize_domain lib (str_lower lib (split_dot_head (service device)))"

definition se_domain_checked :: "pylib \<Rightarrow> obj \<Rightarrow> obj \<Rightarrow> bool" where
  "se_domain_checked lib device entity \<longleftrightarrow>
     service device \<noteq> [] \<and> se_svc_domain lib device \<noteq> [] \<and>
     normalize_domain lib (se_e_domain entity) \<noteq> []"

definition se_domain_bonus :: "pylib \<Rightarrow> obj \<Rightarrow> obj \<Rightarrow> real" where
  "se_domain_bonus lib device entity =
     (if se_domain_checked lib device entity \<and>
         se_svc_domain lib device = normalize_domain lib (se_e_domain entity)
      then 0.03 else 0)"

definition se_warnings :: "pylib \<Rightarrow> obj \<Rightarrow> obj \<Rightarrow> ustring list" where
  "se_warnings lib device entity =
     (if se_domain_checked lib device entity \<and>
         se_svc_domain lib device \<noteq> normalize_domain lib (se_e_domain entity)
      then [ustr ''Service domain mismatch for '' @ entity_id entity] else [])"

record scored_entity =
  se_score :: real
  se_ev :: evidence
  se_warn :: "ustring list"

definition score_entity :: "pylib \<Rightarrow> alias_map \<Rightarrow> obj \<Rightarrow> obj \<Rightarrow> scored_entity" where
  "score_entity lib ra device entity =
     (if is_all_devices lib device then
        (if se_type_score lib device entity \<ge> 0.90
         then \<lparr>se_score = 0.80, se_ev = se_evidence lib ra device entity, se_warn = []\<rparr>
         else \<lparr>se_score = - 1, se_ev = se_evidence lib ra device entity, se_warn = []\<rparr>)
      else if se_rejected lib ra device entity then
        \<lparr>se_score = - 1, se_ev = se_evidence lib ra device entity, se_warn = []\<rparr>
      else
        \<lparr>se_score = se_base_score lib ra device entity + se_location_bonus lib ra device entity +
                     se_exact_bonus lib ra device entity + se_domain_bonus lib device entity,
         se_ev = se_evidence lib ra device entity,
         se_warn = se_warnings lib device entity\<rparr>)"


section \<open>Example inputs\<close>

text \<open>The end-to-end scenario: two lights on floor 1, one in the living room and one in
  the bedroom, and the request for the light of the living room, with no alias table and
  no configuration.\<close>

definition living_lamp :: obj where
  "living_lamp = empty_obj\<lparr>entity_id := ustr ''light.living_lamp'',
     room_name := ustr ''living_room'', floor_name := ustr ''1''\<rparr>"

definition bedroom_lamp :: obj where
  "bedroom_lamp = empty_obj\<lparr>entity_id := ustr ''light.bedroom_lamp'',
     room_name := ustr ''bedroom'', floor_name := ustr ''1''\<rparr>"

definition living_light_request :: obj where
  "living_light_request = empty_obj\<lparr>room_name := ustr ''living_room'',
     device_type := ustr ''light''\<rparr>"


definition no_aliases :: aliases where
  "no_aliases = \<lparr>rooms = [], floors = [], device_types = []\<rparr>"

definition scenario :: batch where
  "scenario = \<lparr>intent_devices = [living_light_request], entities = [living_lamp, bedroom_lamp],
     user_query = [], intent_name = ustr ''Best Match'', batch_aliases = no_aliases,
     batch_config = default_config\<rparr>"


definition scenario_action :: action where
  "scenario_action =
     fst (process_device lib0 (fresh_indices lib0 no_aliases) [living_lamp, bedroom_lamp]
       (build_type_index lib0 [living_lamp, bedroom_lamp]) no_aliases default_config
       living_light_request)"


text \<open>A request for every light: a device type and nothing else.\<close>

definition all_lights_request :: obj where
  "all_lights_request = empty_obj\<lparr>device_type := ustr ''light''\<rparr>"


text \<open>A pool of 51 lights with no type given in the request: fifty in the living room and
  one whose room, \<open>living\<close>, is a part of the requested \<open>living_room\<close>.\<close>

definition sofa_lamp :: obj where
  "sofa_lamp = empty_obj\<lparr>entity_id := ustr ''light.sofa_lamp'', room_name := ustr ''living''\<rparr>"

definition living_room_request :: obj where
  "living_room_request = empty_obj\<lparr>room_name := ustr ''living_room''\<rparr>"

definition crowded_pool :: "obj list" where
  "crowded_pool = replicate 50 living_lamp @ [sofa_lamp]"

text \<open>An entity with no floor and no room, a request for floor 2, and a request whose
  floor is a hyphen.\<close>

definition bare_lamp :: obj where
  "bare_lamp = empty_obj\<lparr>entity_id := ustr ''light.lamp''\<rparr>"

definition floor2_request :: obj where
  "floor2_request = empty_obj\<lparr>floor_name := ustr ''2''\<rparr>"

definition hyphen_floor_request :: obj where
  "hyphen_floor_request = empty_obj\<lparr>floor_name := ustr ''-''\<rparr>"








section \<open>Properties of normalisation\<close>

lemma keep_not_space: "is_keep c \<Longrightarrow> \<not> is_space c"
  by (auto simp: is_keep_def is_space_def)

lemma keep_not_dash: "is_keep c \<Longrightarrow> \<not> is_dash c"
  by (auto simp: is_keep_def is_dash_def)



lemma strip_keep: "list_all is_keep s \<Longrightarrow> strip s = s"
proof (cases s rule: rev_cases)
  case Nil
  then show ?thesis by (simp add: strip_def)
next
  case (snoc ys y)
  assume k: "list_all is_keep s"
  have first: "dropWhile is_space s = s"
    using k by (cases s) (auto simp: keep_not_space)
  have "\<not> is_space y" using k snoc by (simp add: keep_not_space)
  then have "dropWhile is_space (rev s) = rev s"
    using snoc by simp
  then show ?thesis by (simp add: strip_def first)
qed

lemma filter_keep_all: "list_all is_keep (filter is_keep s)"
  by (simp add: list_all_iff)

lemma filter_id_keep:
  "list_all is_keep s \<Longrightarrow> filter (\<lambda>c. \<not> is_dash c) (filter (\<lambda>c. \<not> is_space c) s) = s"
  by (induction s) (simp_all add: keep_not_space keep_not_dash)

text \<open>The two separator passes and the final strip are subsumed by the keep pass.\<close>

lemma normalize_eq: "normalize_str lib s = filter is_keep (str_lower lib s)"
proof -
  have sub: "filter (\<lambda>c. \<not> is_space c \<and> \<not> is_dash c \<and> is_keep c) t = filter is_keep t" for t
    by (rule filter_cong) (auto simp: keep_not_space keep_not_dash)
  have "strip (filter is_keep (str_lower lib s)) = filter is_keep (str_lower lib s)"
    by (rule strip_keep) (rule filter_keep_all)
  then show ?thesis
    by (simp add: normalize_def normalize_str_def sub) (simp add: str_lower_def)
qed








text \<open>The cache is transparent: started on a cache whose entries are right,
  \<open>normalize_cached\<close> returns the computed value, leaves such a cache, and keeps it within
  its capacity.\<close>

lemma memo_of_get:
  assumes "memo_of f cache" "lru_get cache key = (r, cache1)"
  shows "(r = None \<or> r = Some (f key)) \<and> memo_of f cache1"
proof (cases "map_of cache key")
  case None
  then show ?thesis using assms by (simp add: lru_get_def)
next
  case (Some v)
  then have "(key, v) \<in> set cache" by (rule map_of_SomeD)
  then have v: "v = f key" using assms(1) by (auto simp: memo_of_def list_all_iff)
  have "memo_of f (filter (\<lambda>kv. fst kv \<noteq> key) cache @ [(key, v)])"
    using assms(1) v by (auto simp: memo_of_def list_all_iff)
  then show ?thesis using assms(2) Some v by (auto simp: lru_get_def)
qed

lemma memo_of_tl: "memo_of f cache \<Longrightarrow> memo_of f (tl cache)"
  by (cases cache) (simp_all add: memo_of_def)

lemma memo_of_set: "memo_of f cache \<Longrightarrow> v = f key \<Longrightarrow> memo_of f (lru_set maxsize cache key v)"
proof -
  assume a: "memo_of f cache" "v = f key"
  then have "memo_of f (filter (\<lambda>kv. fst kv \<noteq> key) cache @ [(key, v)])"
    by (auto simp: memo_of_def list_all_iff)
  then show ?thesis by (simp add: lru_set_def Let_def memo_of_tl)
qed

lemma lru_set_bounded: "length cache \<le> maxsize \<Longrightarrow> length (lru_set maxsize cache key v) \<le> maxsize"
proof -
  assume "length cache \<le> maxsize"
  moreover have "length (filter (\<lambda>kv. fst kv \<noteq> key) cache) \<le> length cache" by simp
  ultimately have "length (filter (\<lambda>kv. fst kv \<noteq> key) cache) \<le> maxsize" by (rule le_trans [rotated])
  then show ?thesis by (simp add: lru_set_def Let_def)
qed

lemma lru_get_length: "lru_get cache key = (r, cache1) \<Longrightarrow> length cache1 \<le> length cache"
proof -
  assume a: "lru_get cache key = (r, cache1)"
  show ?thesis
  proof (cases "map_of cache key")
    case None
    then show ?thesis using a by (simp add: lru_get_def)
  next
    case (Some v)
    then have "(key, v) \<in> set cache" by (rule map_of_SomeD)
    then have "length (filter (\<lambda>kv. fst kv \<noteq> key) cache) < length cache"
      by (intro length_filter_less[where x="(key, v)"]) auto
    then show ?thesis using a Some by (auto simp: lru_get_def)
  qed
qed

lemma normalize_cached_transparent:
  assumes "memo_of (normalize_str lib) cache"
  shows "fst (normalize_cached lib cache text) = normalize_str lib text"
    and "memo_of (normalize_str lib) (snd (normalize_cached lib cache text))"
proof -
  obtain r cache1 where g: "lru_get cache text = (r, cache1)" by (cases "lru_get cache text")
  from memo_of_get [OF assms g]
  have r: "r = None \<or> r = Some (normalize_str lib text)" and m: "memo_of (normalize_str lib) cache1"
    by simp_all
  show "fst (normalize_cached lib cache text) = normalize_str lib text"
    using r by (auto simp: normalize_cached_def g normalize_str_def Let_def)
  show "memo_of (normalize_str lib) (snd (normalize_cached lib cache text))"
  proof (cases "text = []")
    case True
    then show ?thesis using assms by (simp add: normalize_cached_def)
  next
    case False
    then show ?thesis using r m
      by (auto simp: normalize_cached_def g Let_def normalize_str_def intro!: memo_of_set)
  qed
qed

lemma normalize_cached_bounded:
  "length cache \<le> 1000 \<Longrightarrow> length (snd (normalize_cached lib cache text)) \<le> 1000"
proof -
  assume a: "length cache \<le> 1000"
  obtain r cache1 where g: "lru_get cache text = (r, cache1)" by (cases "lru_get cache text")
  have "length cache1 \<le> 1000" using lru_get_length [OF g] a by simp
  then show ?thesis using a
    by (cases r) (auto simp: normalize_cached_def g Let_def lru_set_bounded)
qed



section \<open>Input validation\<close>

lemma lookup1: "lookup_path v [k] = (if is_dict v then map_of (items v) k else None)"
  by (cases v) (simp_all add: is_dict_def items_def split: option.splits)

lemma lookup3: "lookup_path v [a, b, c] =
  (if is_dict v \<and> has_key v a \<and> is_dict (get_dict v a) \<and> has_key (get_dict v a) b
      \<and> is_dict (get_dict (get_dict v a) b)
   then map_of (items (get_dict (get_dict v a) b)) c else None)"
  by (cases v)
    (simp_all add: is_dict_def items_def has_key_def get_dict_def get_or_def
       split: option.splits json.splits)

lemma present_list_iff:
  "present_list (map_of (items v) k) \<longleftrightarrow> has_key v k \<and> is_list (get_dict v k)"
  by (auto simp: present_list_def has_key_def get_dict_def get_or_def is_list_def
      split: option.splits json.splits)

lemma not_key_empty: "\<not> has_key (JDict []) k"
  by (simp add: has_key_def items_def)

lemma get_dict_missing: "\<not> has_key v k \<Longrightarrow> get_dict v k = JDict []"
  by (simp add: has_key_def get_dict_def get_or_def)

text \<open>Validation succeeds exactly when both sequences are present and are lists.\<close>

lemma validate_iff:
  "fst (validate_input payload) \<longleftrightarrow>
     present_list (device_sequence payload) \<and> present_list (entity_sequence payload)"
proof (cases "is_dict payload")
  case False
  then show ?thesis
    by (cases payload) (simp_all add: validate_input_def device_sequence_def entity_sequence_def
       present_list_def is_dict_def)
next
  case True
  show ?thesis
  proof (cases "wrapped payload")
    case w: True
    have a: "present_list (device_sequence payload) \<longleftrightarrow>
       has_key payload (ustr ''intention_data'') \<and> is_dict (get_dict payload (ustr ''intention_data''))
       \<and> has_key (get_dict payload (ustr ''intention_data'')) (ustr ''data'')
       \<and> is_dict (get_dict (get_dict payload (ustr ''intention_data'')) (ustr ''data''))
       \<and> has_key (get_dict (get_dict payload (ustr ''intention_data'')) (ustr ''data'')) (ustr ''devices'')
       \<and> is_list (get_dict (get_dict (get_dict payload (ustr ''intention_data'')) (ustr ''data''))
            (ustr ''devices''))"
      using True w
      by (auto simp add: device_sequence_def lookup3 present_list_iff simp del: lookup_path.simps)
         (simp_all add: present_list_def)
    have b: "present_list (entity_sequence payload) \<longleftrightarrow>
       has_key payload (ustr ''entities_data'') \<and> is_dict (get_dict payload (ustr ''entities_data''))
       \<and> has_key (get_dict payload (ustr ''entities_data'')) (ustr ''data'')
       \<and> is_dict (get_dict (get_dict payload (ustr ''entities_data'')) (ustr ''data''))
       \<and> has_key (get_dict (get_dict payload (ustr ''entities_data'')) (ustr ''data'')) (ustr ''entities'')
       \<and> is_list (get_dict (get_dict (get_dict payload (ustr ''entities_data'')) (ustr ''data''))
            (ustr ''entities''))"
      using True w
      by (auto simp add: entity_sequence_def lookup3 present_list_iff simp del: lookup_path.simps)
         (simp_all add: present_list_def)
    have c: "\<not> has_key v k \<Longrightarrow> \<not> has_key (get_dict v k) k'" for v k k'
      by (simp add: get_dict_missing not_key_empty)
    show ?thesis
      unfolding a b using True w c [of payload "ustr ''intention_data''" "ustr ''data''"]
        c [of payload "ustr ''entities_data''" "ustr ''data''"]
        c [of "get_dict payload (ustr ''intention_data'')" "ustr ''data''" "ustr ''devices''"]
        c [of "get_dict payload (ustr ''entities_data'')" "ustr ''data''" "ustr ''entities''"]
      by (auto simp: validate_input_def wrapped_def Let_def)
  next
    case False
    then show ?thesis using True
      by (auto simp: validate_input_def device_sequence_def entity_sequence_def lookup1 wrapped_def
          present_list_iff simp del: lookup_path.simps)
  qed
qed

text \<open>
  C8. A payload whose device sequence or entity sequence is missing, or is not a list,
  fails validation with a non-empty message, and \<open>main\<close> prints the one error object with
  that message, whatever \<open>process\<close> would do with the payload.
\<close>

theorem invalid_payload_rejected:
  "\<not> present_list (device_sequence payload) \<or> \<not> present_list (entity_sequence payload) \<Longrightarrow>
   fst (validate_input payload) = False \<and> snd (validate_input payload) \<noteq> [] \<and>
   main proc payload = [Error_object (snd (validate_input payload))]"
proof -
  assume "\<not> present_list (device_sequence payload) \<or> \<not> present_list (entity_sequence payload)"
  then have f: "\<not> fst (validate_input payload)" by (simp add: validate_iff)
  have m: "fst (validate_input payload) \<or> snd (validate_input payload) \<noteq> []"
    by (simp add: validate_input_def Let_def)
  show ?thesis using f m by (cases "validate_input payload") (auto simp: main_def)
qed

theorem invalid_payload_rejected_witness:
  "\<not> present_list (device_sequence (JDict [(ustr ''entities'', JList [])])) \<and>
   validate_input (JDict [(ustr ''entities'', JList [])]) = (False, ''Missing 'intent_devices' field'') \<and>
   main (\<lambda>p. Inr True) (JDict [(ustr ''entities'', JList [])]) =
     [Error_object ''Missing 'intent_devices' field'']"
proof -
  let ?p = "JDict [(ustr ''entities'', JList [])]"
  have k: "has_key ?p (ustr ''entities'')" "\<not> has_key ?p (ustr ''intention_data'')"
    "\<not> has_key ?p (ustr ''entities_data'')" "\<not> has_key ?p (ustr ''intent_devices'')"
    by (simp_all add: has_key_def items_def ustr_def)
  have d: "\<not> present_list (device_sequence ?p)"
    using k by (simp add: device_sequence_def wrapped_def lookup1 present_list_iff is_dict_def
        del: lookup_path.simps)
  have v: "validate_input ?p = (False, ''Missing 'intent_devices' field'')"
    using k by (simp add: validate_input_def is_dict_def is_list_def get_dict_def get_or_def items_def)
  from invalid_payload_rejected [of ?p "\<lambda>p. Inr True"] d v show ?thesis by simp
qed


section \<open>Field similarity\<close>

lemma normalize_nonempty_arg: "normalize_str lib q \<noteq> [] \<Longrightarrow> q \<noteq> []"
  by (auto simp: normalize_str_def)

text \<open>The same for \<open>field_similarity\<close>: the value does not depend on the order of the
  candidates, so the entry stored under the sorted candidates is right for every order.\<close>

lemma normalize_each_transparent:
  "memo_of (normalize_str lib) cache \<Longrightarrow>
   fst (normalize_each lib cache xs) = map (normalize_str lib) xs \<and>
   memo_of (normalize_str lib) (snd (normalize_each lib cache xs))"
proof (induction xs arbitrary: cache)
  case Nil
  then show ?case by simp
next
  case (Cons x xs)
  obtain r cache1 where a: "normalize_cached lib cache x = (r, cache1)"
    by (cases "normalize_cached lib cache x")
  from normalize_cached_transparent [OF Cons.prems, of x] a
  have r: "r = normalize_str lib x" and m: "memo_of (normalize_str lib) cache1" by simp_all
  from Cons.IH [OF m] show ?case by (cases "normalize_each lib cache1 xs") (simp add: a r)
qed

lemma field_similarity_order_blind:
  assumes "order_blind lib" "mset xs = mset ys"
  shows "field_similarity lib q xs = field_similarity lib q ys"
proof -
  let ?f = "\<lambda>zs. filter (\<lambda>c. c \<noteq> []) (map (normalize_str lib) (filter (\<lambda>c. c \<noteq> []) zs))"
  have "mset (filter (\<lambda>c. c \<noteq> []) xs) = mset (filter (\<lambda>c. c \<noteq> []) ys)"
    using assms(2) by simp
  then have "mset (map (normalize_str lib) (filter (\<lambda>c. c \<noteq> []) xs)) =
      mset (map (normalize_str lib) (filter (\<lambda>c. c \<noteq> []) ys))"
    by (metis mset_map)
  then have m: "mset (?f xs) = mset (?f ys)" by (metis mset_filter)
  then have s: "set (?f xs) = set (?f ys)" by (rule mset_eq_setD)
  have e: "?f xs = [] \<longleftrightarrow> ?f ys = []" using m by (metis mset_zero_iff)
  have t: "tfidf_max lib (?f xs) (normalize_str lib q) = tfidf_max lib (?f ys) (normalize_str lib q)"
    using assms(1) m unfolding order_blind_def by blast
  show ?thesis
    unfolding field_similarity_def Let_def list_ex_iff using s e t by presburger
qed

lemma field_similarity_cached_transparent:
  assumes "order_blind lib" "caches_ok lib cs"
  shows "fst (field_similarity_cached lib cs query candidates) = field_similarity lib query candidates"
    and "caches_ok lib (snd (field_similarity_cached lib cs query candidates))"
proof -
  let ?key = "(query, sort candidates)"
  let ?F = "\<lambda>key. field_similarity lib (fst key) (snd key)"
  have k: "field_similarity lib query (sort candidates) = field_similarity lib query candidates"
    using field_similarity_order_blind [OF assms(1), of "sort candidates" candidates query] by simp
  obtain r tc1 where g: "lru_get (tfidf_cache cs) ?key = (r, tc1)"
    by (cases "lru_get (tfidf_cache cs) ?key")
  have mt: "memo_of ?F (tfidf_cache cs)" and mn: "memo_of (normalize_str lib) (normalize_cache cs)"
    using assms(2) by (simp_all add: caches_ok_def)
  from memo_of_get [OF mt g] k
  have r: "r = None \<or> r = Some (field_similarity lib query candidates)" and m1: "memo_of ?F tc1"
    by simp_all
  obtain q nc1 where a: "normalize_cached lib (normalize_cache cs) query = (q, nc1)"
    by (cases "normalize_cached lib (normalize_cache cs) query")
  from normalize_cached_transparent [OF mn, of query] a
  have q: "q = normalize_str lib query" and n1: "memo_of (normalize_str lib) nc1" by simp_all
  obtain cands0 nc2 where b: "normalize_each lib nc1 (filter (\<lambda>c. c \<noteq> []) candidates) = (cands0, nc2)"
    by (cases "normalize_each lib nc1 (filter (\<lambda>c. c \<noteq> []) candidates)")
  from normalize_each_transparent [OF n1, of "filter (\<lambda>c. c \<noteq> []) candidates"] b
  have c: "cands0 = map (normalize_str lib) (filter (\<lambda>c. c \<noteq> []) candidates)"
    and n2: "memo_of (normalize_str lib) nc2" by simp_all
  show "fst (field_similarity_cached lib cs query candidates) = field_similarity lib query candidates"
  proof (cases r)
    case None
    then show ?thesis
      by (simp add: field_similarity_cached_def g a b q c field_similarity_def Let_def)
  next
    case (Some v)
    then show ?thesis using r by (simp add: field_similarity_cached_def g Let_def)
  qed
  show "caches_ok lib (snd (field_similarity_cached lib cs query candidates))"
  proof (cases r)
    case None
    have "memo_of ?F (lru_set 500 tc1 ?key (field_similarity lib query candidates))"
      by (rule memo_of_set [OF m1]) (simp add: k)
    then show ?thesis using None n2
      by (simp add: field_similarity_cached_def g a b q c caches_ok_def Let_def field_similarity_def)
  next
    case (Some v)
    then show ?thesis using m1 mn by (simp add: field_similarity_cached_def g Let_def caches_ok_def)
  qed
qed

text \<open>
  C5, as the code has it. \<open>field_similarity(q, [q])\<close> is 1.0 for every query whose normal
  form is non-empty; the result is 0.0 whenever the query has no normal form (the absent
  and the empty query among them) and whenever no candidate has one (the empty candidate
  list among them). The cached function returns these values from all caches whose
  entries are right, and leaves such caches.
\<close>

theorem field_similarity_exact:
  "(normalize_str lib q \<noteq> [] \<longrightarrow> field_similarity lib q [q] = 1) \<and>
   (normalize_str lib q = [] \<longrightarrow> field_similarity lib q cands = 0) \<and>
   (list_all (\<lambda>c. normalize_str lib c = []) cands \<longrightarrow> field_similarity lib q cands = 0) \<and>
   (order_blind lib \<and> caches_ok lib cs \<longrightarrow>
      fst (field_similarity_cached lib cs q cands) = field_similarity lib q cands \<and>
      caches_ok lib (snd (field_similarity_cached lib cs q cands)))"
proof -
  have "filter (\<lambda>c. c \<noteq> []) (map (normalize_str lib) (filter (\<lambda>c. c \<noteq> []) cands)) = []"
    if "list_all (\<lambda>c. normalize_str lib c = []) cands"
    using that by (induction cands) auto
  then have "(normalize_str lib q \<noteq> [] \<longrightarrow> field_similarity lib q [q] = 1) \<and>
   (normalize_str lib q = [] \<longrightarrow> field_similarity lib q cands = 0) \<and>
   (list_all (\<lambda>c. normalize_str lib c = []) cands \<longrightarrow> field_similarity lib q cands = 0)"
    by (auto simp: field_similarity_def Let_def dest: normalize_nonempty_arg)
  then show ?thesis
    using field_similarity_cached_transparent [of lib cs q cands] by blast
qed

theorem field_similarity_exact_witness:
  "normalize_str lib0 (ustr ''lamp'') \<noteq> [] \<and>
   field_similarity lib0 (ustr ''lamp'') [ustr ''lamp''] = 1 \<and>
   normalize_str lib0 (ustr ''-'') = [] \<and>
   field_similarity lib0 (ustr ''-'') [ustr ''lamp''] = 0 \<and>
   list_all (\<lambda>c. normalize_str lib0 c = []) [ustr ''-'', []] \<and>
   field_similarity lib0 (ustr ''lamp'') [ustr ''-'', []] = 0 \<and>
   order_blind lib0 \<and> caches_ok lib0 empty_caches \<and>
   fst (field_similarity_cached lib0 empty_caches (ustr ''lamp'') [ustr ''lamp'']) = 1"
proof -
  have a: "normalize_str lib0 (ustr ''lamp'') \<noteq> []"
    by (simp add: normalize_eq str_lower_def lower_cp_def is_keep_def ustr_def)
  have b: "normalize_str lib0 (ustr ''-'') = []"
    by (simp add: normalize_eq str_lower_def lower_cp_def is_keep_def ustr_def)
  have c: "list_all (\<lambda>c. normalize_str lib0 c = []) [ustr ''-'', []]"
    using b by (simp add: normalize_str_def)
  have o: "order_blind lib0" by (simp add: order_blind_def lib0_def)
  have k: "caches_ok lib0 empty_caches" by (simp add: caches_ok_def empty_caches_def memo_of_def)
  from field_similarity_exact [of lib0 "ustr ''lamp''" "[ustr ''-'', []]"]
    field_similarity_exact [of lib0 "ustr ''-''" "[ustr ''lamp'']"]
    field_similarity_exact [of lib0 "ustr ''lamp''" "[ustr ''lamp'']" empty_caches] a b c o k
  show ?thesis by simp
qed

text \<open>As stated for every non-empty query, the exact-match law fails: a query made of
  a hyphen is non-empty, has no normal form, and scores 0.0 against itself.\<close>

theorem field_similarity_exact_counterexample:
  "\<not> (\<forall>lib q. q \<noteq> [] \<longrightarrow> field_similarity lib q [q] = 1)"
proof
  assume "\<forall>lib q. q \<noteq> [] \<longrightarrow> field_similarity lib q [q] = 1"
  then have "field_similarity lib0 (ustr ''-'') [ustr ''-''] = 1" by (simp add: ustr_def)
  moreover have "normalize_str lib0 (ustr ''-'') = []"
    by (simp add: normalize_eq str_lower_def lower_cp_def is_keep_def ustr_def)
  ultimately show False by (simp add: field_similarity_def)
qed


section \<open>The example, evaluated\<close>

lemma normalize_text_eq: "normalize_text lib s = normalize_str lib s"
  by (simp add: normalize_text_def normalize_str_def)

lemma keep_literals:
  "list_all is_keep (ustr ''livingroom'')" "list_all is_keep (ustr ''bedroom'')"
  "list_all is_keep (ustr ''light'')" "list_all is_keep (ustr ''1'')"
  by (simp_all add: ustr_def is_keep_def)

lemma norm_literals:
  "normalize_str lib (ustr ''living_room'') = ustr ''livingroom''"
  "normalize_str lib (ustr ''bedroom'') = ustr ''bedroom''"
  "normalize_str lib (ustr ''light'') = ustr ''light''"
  "normalize_str lib (ustr ''1'') = ustr ''1''"
  by (simp_all add: normalize_eq str_lower_def lower_cp_def is_keep_def ustr_def)

lemma lower_literals: "str_lower lib (ustr ''light'') = ustr ''light''" "str_lower lib [] = []"
  by (simp_all add: str_lower_def lower_cp_def ustr_def)

lemma dot_literals:
  "split_dot_head (ustr ''light.living_lamp'') = ustr ''light''"
  "split_dot_head (ustr ''light.bedroom_lamp'') = ustr ''light''"
  by (simp_all add: split_dot_head_def ustr_def)

lemma nonempty_literals:
  "ustr ''living_room'' \<noteq> []" "ustr ''light'' \<noteq> []" "ustr ''livingroom'' \<noteq> []"
  "ustr ''bedroom'' \<noteq> []" "ustr ''1'' \<noteq> []"
  "ustr ''light.living_lamp'' \<noteq> []" "ustr ''light.bedroom_lamp'' \<noteq> []"
  by (simp_all add: ustr_def)

lemma distinct_literals:
  "ustr ''livingroom'' \<noteq> ustr ''bedroom''"
  "\<not> str_in (ustr ''livingroom'') (ustr ''bedroom'')"
  "\<not> str_in (ustr ''bedroom'') (ustr ''livingroom'')"
  by (simp_all add: ustr_def)

lemma request_fields:
  "get_primary_field lib living_light_request F_floor = []"
  "get_primary_field lib living_light_request F_room = ustr ''living_room''"
  "get_primary_field lib living_light_request F_name = []"
  "get_primary_field lib living_light_request F_type = ustr ''light''"
  "service living_light_request = []"
  by (simp_all add: get_primary_field_def extract_field_candidates_def living_light_request_def
      empty_obj_def nonempty_literals lower_literals)

lemma request_q:
  "floor_q lib living_light_request = []"
  "room_q lib living_light_request = ustr ''living_room''"
  "name_q lib living_light_request = []"
  "type_q lib living_light_request = ustr ''light''"
  by (simp_all add: floor_q_def room_q_def name_q_def type_q_def request_fields nonempty_literals Let_def)

lemma living_cands:
  "extract_field_candidates lib living_lamp F_floor = [[], [], ustr ''1'', []]"
  "extract_field_candidates lib living_lamp F_room = [[], [], ustr ''living_room'']"
  "extract_field_candidates lib living_lamp F_name = [[], []]"
  "extract_field_candidates lib living_lamp F_type = [[], ustr ''light'']"
  by (simp_all add: extract_field_candidates_def living_lamp_def empty_obj_def nonempty_literals
      lower_literals dot_literals)

lemma bedroom_cands:
  "extract_field_candidates lib bedroom_lamp F_floor = [[], [], ustr ''1'', []]"
  "extract_field_candidates lib bedroom_lamp F_room = [[], [], ustr ''bedroom'']"
  "extract_field_candidates lib bedroom_lamp F_name = [[], []]"
  "extract_field_candidates lib bedroom_lamp F_type = [[], ustr ''light'']"
  by (simp_all add: extract_field_candidates_def bedroom_lamp_def empty_obj_def nonempty_literals
      lower_literals dot_literals)

lemma fresh_no_aliases:
  "fresh_indices lib no_aliases Device_types = Some Map.empty"
  by (simp add: fresh_indices_def no_aliases_def build_alias_reverse_index_def)

lemma expand_light:
  "expand_alias_fast lib (fresh_indices lib no_aliases) (ustr ''light'') Device_types = [ustr ''light'']"
  "expand_alias_fast lib (fresh_indices lib no_aliases) [] Device_types = []"
  by (simp_all add: expand_alias_fast_def fresh_no_aliases nonempty_literals norm_literals)

lemma sim_exact:
  "field_similarity lib (ustr ''living_room'') [[], [], ustr ''living_room''] = 1"
  "field_similarity lib (ustr ''light'') [ustr ''light''] = 1"
  by (simp_all add: field_similarity_def nonempty_literals norm_literals)

lemma sim_bedroom:
  "field_similarity lib (ustr ''living_room'') [[], [], ustr ''bedroom''] =
     get_or (tfidf_max lib [ustr ''bedroom''] (ustr ''livingroom'')) 0"
  by (simp add: field_similarity_def nonempty_literals norm_literals distinct_literals get_or_def)

lemma living_scores:
  "floor_score lib living_light_request living_lamp = 0"
  "room_score lib living_light_request living_lamp = 1"
  "name_score lib living_light_request living_lamp = 0"
  "type_score lib (fresh_indices lib no_aliases) living_light_request living_lamp = 1"
  by (simp_all add: floor_score_def room_score_def name_score_def type_score_def request_q
      living_cands nonempty_literals sim_exact expand_light Let_def)

lemma bedroom_scores:
  "floor_score lib living_light_request bedroom_lamp = 0"
  "room_score lib living_light_request bedroom_lamp =
     get_or (tfidf_max lib [ustr ''bedroom''] (ustr ''livingroom'')) 0"
  "name_score lib living_light_request bedroom_lamp = 0"
  "type_score lib (fresh_indices lib no_aliases) living_light_request bedroom_lamp = 1"
  by (simp_all add: floor_score_def room_score_def name_score_def type_score_def request_q
      bedroom_cands nonempty_literals sim_exact sim_bedroom expand_light Let_def)

lemma request_generic: "\<not> is_generic lib living_light_request"
  by (simp add: is_generic_def request_q)

lemma request_bonus: "location_bonus lib living_light_request e als = 0"
  by (simp add: location_bonus_def request_q)

lemma default_cfg:
  "TH default_config = default_thresholds" "W default_config = default_weights"
  "get_or (cfg_topK default_config) 100 = 100"
  by (simp_all add: TH_def W_def default_config_def get_or_def)

lemma living_gates:
  "floor_pass lib default_config living_light_request living_lamp"
  "room_pass lib living_light_request living_lamp"
  "type_pass lib (fresh_indices lib no_aliases) default_config living_light_request living_lamp"
  "name_pass lib default_config living_light_request living_lamp"
  by (simp_all add: floor_pass_def room_pass_def type_pass_def name_pass_def request_q living_scores
      nonempty_literals default_cfg default_thresholds_def get_or_def)

lemma living_base:
  "base_score lib (fresh_indices lib no_aliases) default_config living_light_request living_lamp = 0.685"
  by (simp add: base_score_def request_generic request_q living_scores default_cfg default_weights_def)

lemma living_composite:
  "fst (compute_scores_for_device lib (fresh_indices lib no_aliases) living_light_request living_lamp
     no_aliases default_config) = 0.685"
  by (simp add: compute_scores_for_device_def living_gates living_base request_bonus)

lemma bedroom_composite:
  "tfidf_max lib [ustr ''bedroom''] (ustr ''livingroom'') = None \<Longrightarrow>
   fst (compute_scores_for_device lib (fresh_indices lib no_aliases) living_light_request bedroom_lamp
     no_aliases default_config) = - 1"
  by (simp add: compute_scores_for_device_def room_pass_def request_q nonempty_literals
      bedroom_scores get_or_def)








text \<open>The batch of the example: the type index, the pool and the ranked list.\<close>

lemma scenario_index:
  "index_get (build_type_index lib [living_lamp, bedroom_lamp]) (ustr ''light'') = [living_lamp, bedroom_lamp]"
proof -
  have f: "entity_id living_lamp = ustr ''light.living_lamp''" "device_type living_lamp = []"
    "entity_id bedroom_lamp = ustr ''light.bedroom_lamp''" "device_type bedroom_lamp = []"
    by (simp_all add: living_lamp_def bedroom_lamp_def empty_obj_def)
  show ?thesis
    by (simp add: build_type_index_def type_index_step_def f nonempty_literals dot_literals
        norm_literals index_get_def Let_def)
qed

lemma scenario_pool:
  "filter_candidates lib living_light_request [living_lamp, bedroom_lamp]
     (build_type_index lib [living_lamp, bedroom_lamp]) = [living_lamp, bedroom_lamp]"
  by (simp add: filter_candidates_def narrow_by_def type_pool_def request_fields nonempty_literals
      norm_literals scenario_index Let_def)

lemma scenario_top:
  "map fst (top_ranked lib0 (fresh_indices lib0 no_aliases) living_light_request
     [living_lamp, bedroom_lamp] no_aliases default_config) = [living_lamp]"
  "map (\<lambda>it. fst (snd it)) (top_ranked lib0 (fresh_indices lib0 no_aliases) living_light_request
     [living_lamp, bedroom_lamp] no_aliases default_config) = [0.685]"
proof -
  have n: "tfidf_max lib0 [ustr ''bedroom''] (ustr ''livingroom'') = None" by (simp add: lib0_def)
  have "scored lib0 (fresh_indices lib0 no_aliases) living_light_request
     [living_lamp, bedroom_lamp] no_aliases default_config =
     [(living_lamp, compute_scores_for_device lib0 (fresh_indices lib0 no_aliases) living_light_request living_lamp
     no_aliases default_config)]"
    by (simp add: scored_def living_composite bedroom_composite [OF n])
  then show "map fst (top_ranked lib0 (fresh_indices lib0 no_aliases) living_light_request
     [living_lamp, bedroom_lamp] no_aliases default_config) = [living_lamp]"
   "map (\<lambda>it. fst (snd it)) (top_ranked lib0 (fresh_indices lib0 no_aliases) living_light_request
     [living_lamp, bedroom_lamp] no_aliases default_config) = [0.685]"
    by (simp_all add: top_ranked_def sort_desc_def slice_to_def default_cfg living_composite)
qed

lemma scenario_actions: "actions (fst (process lib0 st scenario)) = [scenario_action]"
  by (simp add: process_def scenario_def scenario_action_def Let_def)

lemma scenario_targets:
  "map tg_entity_id (targets scenario_action) = [ustr ''light.living_lamp'']"
  "map tg_score (targets scenario_action) = [0.685]"
proof -
  have "map tg_entity_id (targets scenario_action) = map (entity_id \<circ> fst) (top_ranked lib0 (fresh_indices lib0 no_aliases) living_light_request
     [living_lamp, bedroom_lamp] no_aliases default_config)"
    by (simp add: scenario_action_def process_device_def scenario_pool Let_def to_target_def comp_def)
  also have "\<dots> = map entity_id [living_lamp]" using scenario_top(1) by (metis map_map)
  finally show "map tg_entity_id (targets scenario_action) = [ustr ''light.living_lamp'']"
    by (simp add: living_lamp_def empty_obj_def)
  have "map tg_score (targets scenario_action) = map (\<lambda>it. fst (snd it)) (top_ranked lib0 (fresh_indices lib0 no_aliases) living_light_request
     [living_lamp, bedroom_lamp] no_aliases default_config)"
    by (simp add: scenario_action_def process_device_def scenario_pool Let_def to_target_def comp_def)
  then show "map tg_score (targets scenario_action) = [0.685]" using scenario_top(2) by simp
qed

text \<open>The first-generation scorer on the same request.\<close>

lemma se_request_q:
  "se_floor_q living_light_request = []"
  "se_room_q living_light_request = ustr ''living_room''"
  "se_name_q living_light_request = []"
  "se_type_q lib living_light_request = ustr ''light''"
  by (simp_all add: se_floor_q_def se_room_q_def se_name_q_def se_type_q_def living_light_request_def
      empty_obj_def nonempty_literals lower_literals)

lemma living_fields:
  "room_name living_lamp = ustr ''living_room''" "room_name_en living_lamp = []" "room_type living_lamp = []"
  "device_type living_lamp = []" "entity_id living_lamp = ustr ''light.living_lamp''"
  "room_name bedroom_lamp = ustr ''bedroom''" "room_name_en bedroom_lamp = []" "room_type bedroom_lamp = []"
  "device_type bedroom_lamp = []" "entity_id bedroom_lamp = ustr ''light.bedroom_lamp''"
  by (simp_all add: living_lamp_def bedroom_lamp_def empty_obj_def)

lemma se_living_room: "se_room_score lib ra living_light_request living_lamp = 1"
  by (simp add: se_room_score_def se_request_q living_fields nonempty_literals fuzzy_match_def Let_def)

lemma domain_light: "normalize_domain lib (ustr ''light'') = ustr ''light''" "normalize_domain lib [] = []"
  by (simp_all add: normalize_domain_def nonempty_literals normalize_text_eq norm_literals
      HA_DOMAIN_ALIASES_def)

lemma not_special: "ustr ''light'' \<noteq> ustr ''occupancy''" "ustr ''light'' \<noteq> ustr ''motion''"
  by (simp_all add: ustr_def)

lemma se_living_type: "se_type_score lib living_light_request living_lamp = 1"
  "se_type_score lib living_light_request bedroom_lamp = 1"
  by (simp_all add: se_type_score_def se_request_q se_e_domain_def living_fields nonempty_literals
      dot_literals lower_literals domain_light not_special normalize_text_eq norm_literals
      normalize_str_def [of _ "[]"] Let_def)

lemma se_no_name: "se_name_score lib living_light_request e = 0"
  by (simp add: se_name_score_def se_request_q slot_similarity_def normalize_text_def)

lemma se_living_score:
  "se_score (score_entity lib ra living_light_request living_lamp) = 1.04"
  "se_base_score lib ra living_light_request living_lamp = 0.94"
proof -
  have g: "\<not> is_all_devices lib living_light_request" "\<not> floor_only_mode lib living_light_request"
    by (simp_all add: is_all_devices_def floor_only_mode_def se_request_q nonempty_literals)
  have r: "\<not> se_rejected lib ra living_light_request living_lamp"
    by (simp add: se_rejected_def g se_request_q se_room_pass_def se_type_pass_def se_living_room
        se_living_type nonempty_literals THRESHOLDS_def)
  show b: "se_base_score lib ra living_light_request living_lamp = 0.94"
    by (simp add: se_base_score_def se_request_q se_living_room se_living_type WEIGHTS_def)
  have x: "se_exact_bonus lib ra living_light_request living_lamp = 0.10"
    by (simp add: se_exact_bonus_def se_request_q se_living_room nonempty_literals)
  have l: "se_location_bonus lib ra living_light_request living_lamp = 0"
    by (simp add: se_location_bonus_def se_request_q)
  have d: "se_domain_bonus lib living_light_request living_lamp = 0"
    by (simp add: se_domain_bonus_def se_domain_checked_def living_light_request_def empty_obj_def)
  show "se_score (score_entity lib ra living_light_request living_lamp) = 1.04"
    by (simp add: score_entity_def g r b x l d)
qed


section \<open>The two scorers, case by case\<close>

lemma engine_accepted:
  "floor_pass lib cfg dev e \<Longrightarrow> room_pass lib dev e \<Longrightarrow> type_pass lib indices cfg dev e \<Longrightarrow>
   name_pass lib cfg dev e \<Longrightarrow>
   fst (compute_scores_for_device lib indices dev e als cfg) =
     base_score lib indices cfg dev e + location_bonus lib dev e als"
  by (simp add: compute_scores_for_device_def)

lemma engine_rejected:
  "\<not> (floor_pass lib cfg dev e \<and> room_pass lib dev e \<and> type_pass lib indices cfg dev e \<and>
   name_pass lib cfg dev e) \<Longrightarrow>
   fst (compute_scores_for_device lib indices dev e als cfg) = - 1"
  by (simp add: compute_scores_for_device_def)


text \<open>A request that names no device passes the name gate as one with a generic name
  does, and its name enters the weighted sum with 0: line 395 takes 0.85 only for a
  generic name, where line 396 takes 0.90 for an absent floor and \<open>score_entity\<close> takes
  0.85 for an absent name.\<close>

lemma engine_absent_name:
  "name_q lib dev = [] \<Longrightarrow> name_pass lib cfg dev e"
  "name_q lib dev = [] \<Longrightarrow>
   base_score lib indices cfg dev e =
     w_F (W cfg) * (if floor_q lib dev = [] then 0.90 else floor_score lib dev e) +
     w_R (W cfg) * room_score lib dev e + w_N (W cfg) * 0 +
     w_T (W cfg) * type_score lib indices dev e"
  by (simp_all add: name_pass_def base_score_def is_generic_def name_score_def)



lemma se_accepted:
  "\<not> is_all_devices lib dev \<Longrightarrow> \<not> se_rejected lib ra dev e \<Longrightarrow>
   se_score (score_entity lib ra dev e) =
     se_base_score lib ra dev e + se_location_bonus lib ra dev e + se_exact_bonus lib ra dev e +
     se_domain_bonus lib dev e"
  "\<not> is_all_devices lib dev \<Longrightarrow> \<not> se_rejected lib ra dev e \<Longrightarrow>
   se_warn (score_entity lib ra dev e) = se_warnings lib dev e"
  by (simp_all add: score_entity_def)

lemma se_rejected_score:
  "\<not> is_all_devices lib dev \<Longrightarrow> se_rejected lib ra dev e \<Longrightarrow>
   se_score (score_entity lib ra dev e) = - 1"
  by (simp add: score_entity_def)

lemma se_room_zero: "se_room_q dev = [] \<Longrightarrow> se_room_score lib ra dev e = 0"
  by (simp add: se_room_score_def)

lemma se_floor_zero: "se_floor_q dev = [] \<Longrightarrow> se_floor_score lib dev e = 0"
  by (simp add: se_floor_score_def)

lemma se_exact_formula:
  "se_exact_bonus lib ra dev e =
     (if se_room_score lib ra dev e \<ge> 0.98 then 0.10 else 0) +
     (if se_name_q dev \<noteq> [] \<and> \<not> is_generic_device_name lib (se_name_q dev) \<and>
         se_name_score lib dev e \<ge> 0.98 then 0.05 else 0) +
     (if se_floor_score lib dev e \<ge> 0.98 then 0.03 else 0)"
  by (cases "se_room_q dev = []"; cases "se_floor_q dev = []")
     (simp_all add: se_exact_bonus_def se_room_zero se_floor_zero)




section \<open>The composite score\<close>





section \<open>The ranked targets of a request\<close>

lemma sort_desc_sorted: "sorted_wrt (\<lambda>a b. f a \<ge> f b) (sort_desc f xs)"
proof -
  have "sorted (map (\<lambda>x. - f x) (sort_key (\<lambda>x. - f x) xs))" by (rule sorted_sort_key)
  then show ?thesis by (simp add: sort_desc_def sorted_map) 
qed

lemma sort_desc_set: "set (sort_desc f xs) = set xs"
  by (simp add: sort_desc_def)

lemma sort_desc_length: "length (sort_desc f xs) = length xs"
  by (simp add: sort_desc_def)

lemma sorted_wrt_take: "sorted_wrt P xs \<Longrightarrow> sorted_wrt P (take n xs)"
  by (metis append_take_drop_id sorted_wrt_append)

lemma slice_to_sorted: "sorted_wrt P xs \<Longrightarrow> sorted_wrt P (slice_to k xs)"
  by (simp add: slice_to_def sorted_wrt_take)

lemma slice_to_set: "set (slice_to k xs) \<subseteq> set xs"
  by (auto simp: slice_to_def dest: in_set_takeD)

lemma slice_to_length: "0 \<le> k \<Longrightarrow> int (length (slice_to k xs)) \<le> k"
  by (simp add: slice_to_def)

lemma top_ranked_nonneg: "it \<in> set (top_ranked lib indices dev pool als cfg) \<Longrightarrow> 0 \<le> fst (snd it)"
  using slice_to_set by (fastforce simp: top_ranked_def sort_desc_set scored_def)

lemma top_ranked_sorted:
  "sorted_wrt (\<lambda>a b. fst (snd a) \<ge> fst (snd b)) (top_ranked lib indices dev pool als cfg)"
  by (simp add: top_ranked_def slice_to_sorted sort_desc_sorted)

lemma action_facts:
  assumes "a = fst (process_device lib indices es index als cfg dev)"
  shows "list_all (\<lambda>t. 0 \<le> tg_score t) (targets a)"
    and "sorted_wrt (\<lambda>s t. tg_score s \<ge> tg_score t) (targets a)"
    and "0 \<le> get_or (cfg_topK cfg) 100 \<Longrightarrow> int (length (targets a)) \<le> get_or (cfg_topK cfg) 100"
    and "suggestions_if_empty a \<noteq> [] \<Longrightarrow> targets a = []"
proof -
  let ?pool = "filter_candidates lib dev es index"
  let ?tp = "top_ranked lib indices dev ?pool als cfg"
  have t: "targets a = map (to_target lib) ?tp"
    using assms by (simp add: process_device_def Let_def)
  show "list_all (\<lambda>t. 0 \<le> tg_score t) (targets a)"
    using top_ranked_nonneg by (auto simp: t list_all_iff to_target_def)
  show "sorted_wrt (\<lambda>s t. tg_score s \<ge> tg_score t) (targets a)"
    using top_ranked_sorted [of lib indices dev ?pool als cfg]
    by (simp add: t sorted_wrt_map to_target_def)
  show "int (length (targets a)) \<le> get_or (cfg_topK cfg) 100" if "0 \<le> get_or (cfg_topK cfg) 100"
    using that by (simp add: t top_ranked_def slice_to_length)
  show "targets a = []" if "suggestions_if_empty a \<noteq> []"
    using that assms by (simp add: process_device_def Let_def split: if_splits)
qed

text \<open>
  C2, as the code has it. In every action of a processed batch the targets have scores
  of at least 0 (the -1 of a gated candidate never appears), they are sorted by
  non-increasing score, they are at most \<open>topK\<close> (default 100) when \<open>topK\<close> is not negative,
  and \<open>suggestions_if_empty\<close> is non-empty only when there are no targets.
\<close>

theorem finalized_targets:
  "a \<in> set (actions (fst (process lib st b))) \<Longrightarrow>
   list_all (\<lambda>t. 0 \<le> tg_score t) (targets a) \<and>
   sorted_wrt (\<lambda>s t. tg_score s \<ge> tg_score t) (targets a) \<and>
   (0 \<le> get_or (cfg_topK (batch_config b)) 100 \<longrightarrow>
      int (length (targets a)) \<le> get_or (cfg_topK (batch_config b)) 100) \<and>
   (suggestions_if_empty a \<noteq> [] \<longrightarrow> targets a = [])"
proof -
  assume "a \<in> set (actions (fst (process lib st b)))"
  then obtain dev where "a = fst (process_device lib (fresh_indices lib (batch_aliases b)) (entities b)
       (build_type_index lib (entities b)) (batch_aliases b) (batch_config b) dev)"
    by (auto simp: process_def Let_def)
  from action_facts [OF this] show ?thesis by blast
qed

theorem finalized_targets_witness:
  "actions (fst (process lib0 Map.empty scenario)) = [scenario_action] \<and>
   map tg_entity_id (targets scenario_action) = [ustr ''light.living_lamp''] \<and>
   map tg_score (targets scenario_action) = [0.685] \<and>
   list_all (\<lambda>t. 0 \<le> tg_score t) (targets scenario_action) \<and>
   sorted_wrt (\<lambda>s t. tg_score s \<ge> tg_score t) (targets scenario_action) \<and>
   0 \<le> get_or (cfg_topK (batch_config scenario)) 100 \<and>
   int (length (targets scenario_action)) \<le> 100 \<and>
   suggestions_if_empty scenario_action = []"
proof -
  have m: "scenario_action \<in> set (actions (fst (process lib0 Map.empty scenario)))"
    by (simp add: scenario_actions)
  have k: "get_or (cfg_topK (batch_config scenario)) 100 = 100"
    by (simp add: scenario_def default_cfg)
  have "targets scenario_action \<noteq> []" using scenario_targets(1) by auto
  with finalized_targets [OF m] k scenario_targets scenario_actions show ?thesis by auto
qed

text \<open>With \<open>topK = -1\<close> the slice \<open>scored[:topK]\<close> drops the last accepted candidate, and
  the number of targets, which is never negative, exceeds \<open>topK\<close>.\<close>

theorem finalized_targets_counterexample:
  "\<not> (\<forall>lib st b a. a \<in> set (actions (fst (process lib st b))) \<longrightarrow>
        int (length (targets a)) \<le> get_or (cfg_topK (batch_config b)) 100)"
proof
  let ?b = "scenario\<lparr>batch_config := default_config\<lparr>cfg_topK := Some (- 1)\<rparr>\<rparr>"
  assume h: "\<forall>lib st b a. a \<in> set (actions (fst (process lib st b))) \<longrightarrow>
        int (length (targets a)) \<le> get_or (cfg_topK (batch_config b)) 100"
  have "actions (fst (process lib0 Map.empty ?b)) \<noteq> []"
    by (simp add: process_def scenario_def Let_def)
  then obtain a where "a \<in> set (actions (fst (process lib0 Map.empty ?b)))"
    by (cases "actions (fst (process lib0 Map.empty ?b))") auto
  with h have "int (length (targets a)) \<le> get_or (cfg_topK (batch_config ?b)) 100" by blast
  then show False by (simp add: get_or_def)
qed

section \<open>The room gate\<close>

lemma se_room_pass_iff:
  "se_room_pass lib ra dev e \<longleftrightarrow> se_room_q dev = [] \<or> t_room THRESHOLDS \<le> se_room_score lib ra dev e"
  by (simp add: se_room_pass_def)

lemma room_pass_iff:
  "room_pass lib dev e \<longleftrightarrow> room_q lib dev = [] \<or> 0.98 \<le> room_score lib dev e"
  by (simp add: room_pass_def)

lemma se_room_fail_rejects:
  assumes "\<not> se_room_pass lib ra dev e"
  shows "se_score (score_entity lib ra dev e) = - 1"
proof -
  have q: "se_room_q dev \<noteq> []" using assms by (auto simp: se_room_pass_def split: if_splits)
  then have "\<not> is_all_devices lib dev" "\<not> floor_only_mode lib dev"
    by (simp_all add: is_all_devices_def floor_only_mode_def)
  then have "se_rejected lib ra dev e" using assms by (simp add: se_rejected_def)
  then show ?thesis using \<open>\<not> is_all_devices lib dev\<close> by (simp add: se_rejected_score)
qed

lemma se_gates_accept:
  assumes "se_room_q dev \<noteq> []" "se_room_pass lib ra dev e" "se_floor_pass lib dev e"
    "se_type_pass lib dev e" "se_name_pass lib dev e"
  shows "se_score (score_entity lib ra dev e) =
     se_base_score lib ra dev e + se_location_bonus lib ra dev e + se_exact_bonus lib ra dev e +
     se_domain_bonus lib dev e"
proof -
  have m: "\<not> is_all_devices lib dev" "\<not> floor_only_mode lib dev"
    using assms(1) by (simp_all add: is_all_devices_def floor_only_mode_def)
  have "\<not> se_rejected lib ra dev e" using assms m by (simp add: se_rejected_def)
  then show ?thesis using m by (simp add: se_accepted)
qed

text \<open>
  C3. In \<open>compute_scores_for_device\<close> (the variant that requires a near-exact room) a
  candidate passes the room gate exactly when no room is requested or its room score is
  at least 0.98; failing the gate gives the score -1, and passing it together with the
  other three gates gives the composite. In the first-generation \<open>score_entity\<close> the gate
  compares the room score with the configured \<open>THRESHOLDS["room"]\<close>, which is 0.70; it passes
  when no room is requested; failing it gives the score -1, and a request with a room that
  passes it together with the other gates is scored.
\<close>

theorem room_gate:
  "(room_pass lib dev e \<longleftrightarrow> room_q lib dev = [] \<or> 0.98 \<le> room_score lib dev e) \<and>
   (\<not> room_pass lib dev e \<longrightarrow> fst (compute_scores_for_device lib indices dev e als cfg) = - 1) \<and>
   (room_pass lib dev e \<and> floor_pass lib cfg dev e \<and> type_pass lib indices cfg dev e \<and>
    name_pass lib cfg dev e \<longrightarrow>
      fst (compute_scores_for_device lib indices dev e als cfg) =
        base_score lib indices cfg dev e + location_bonus lib dev e als) \<and>
   t_room THRESHOLDS = 0.70 \<and>
   (se_room_pass lib ra dev e \<longleftrightarrow> se_room_q dev = [] \<or> t_room THRESHOLDS \<le> se_room_score lib ra dev e) \<and>
   (\<not> se_room_pass lib ra dev e \<longrightarrow> se_score (score_entity lib ra dev e) = - 1) \<and>
   (se_room_q dev \<noteq> [] \<and> se_room_pass lib ra dev e \<and> se_floor_pass lib dev e \<and>
    se_type_pass lib dev e \<and> se_name_pass lib dev e \<longrightarrow>
      se_score (score_entity lib ra dev e) =
        se_base_score lib ra dev e + se_location_bonus lib ra dev e + se_exact_bonus lib ra dev e +
        se_domain_bonus lib dev e)"
proof (intro conjI impI)
  show "room_pass lib dev e \<longleftrightarrow> room_q lib dev = [] \<or> 0.98 \<le> room_score lib dev e"
    by (rule room_pass_iff)
  show "fst (compute_scores_for_device lib indices dev e als cfg) = - 1" if "\<not> room_pass lib dev e"
    using that by (simp add: engine_rejected)
  show "fst (compute_scores_for_device lib indices dev e als cfg) =
        base_score lib indices cfg dev e + location_bonus lib dev e als"
    if "room_pass lib dev e \<and> floor_pass lib cfg dev e \<and> type_pass lib indices cfg dev e \<and>
        name_pass lib cfg dev e"
    using that by (simp add: engine_accepted)
  show "t_room THRESHOLDS = 0.70" by (simp add: THRESHOLDS_def)
  show "se_room_pass lib ra dev e \<longleftrightarrow>
      se_room_q dev = [] \<or> t_room THRESHOLDS \<le> se_room_score lib ra dev e"
    by (rule se_room_pass_iff)
  show "se_score (score_entity lib ra dev e) = - 1" if "\<not> se_room_pass lib ra dev e"
    using that by (rule se_room_fail_rejects)
  show "se_score (score_entity lib ra dev e) =
        se_base_score lib ra dev e + se_location_bonus lib ra dev e + se_exact_bonus lib ra dev e +
        se_domain_bonus lib dev e"
    if "se_room_q dev \<noteq> [] \<and> se_room_pass lib ra dev e \<and> se_floor_pass lib dev e \<and>
        se_type_pass lib dev e \<and> se_name_pass lib dev e"
    using that by (simp add: se_gates_accept)
qed

lemma room_literals:
  "normalize_room lib ROOM_ALIASES (ustr ''living_room'') = ustr ''living_room''"
  "normalize_room lib ROOM_ALIASES (ustr ''bedroom'') = ustr ''bedroom''"
  "normalize_room lib ROOM_ALIASES [] = []"
  by (simp_all add: normalize_room_def nonempty_literals normalize_text_eq norm_literals
      ROOM_ALIASES_def normalize_eq str_lower_def lower_cp_def is_keep_def ustr_def is_space_def)

lemma se_bedroom_room: "se_room_score lib0 ROOM_ALIASES living_light_request bedroom_lamp = 0"
proof -
  have d: "ustr ''living_room'' \<noteq> ustr ''bedroom''" by (simp add: ustr_def)
  have s: "slot_similarity lib0 (ustr ''living_room'') [ustr ''bedroom'', [], []] = 0"
    by (simp add: slot_similarity_def normalize_text_eq norm_literals nonempty_literals
        distinct_literals lib0_def Let_def)
  show ?thesis
    by (simp add: se_room_score_def se_request_q living_fields nonempty_literals fuzzy_match_def
        normalize_text_eq norm_literals distinct_literals room_literals d s Let_def)
qed

theorem room_gate_witness:
  "room_pass lib0 living_light_request living_lamp \<and>
   floor_pass lib0 default_config living_light_request living_lamp \<and>
   type_pass lib0 (fresh_indices lib0 no_aliases) default_config living_light_request living_lamp \<and>
   name_pass lib0 default_config living_light_request living_lamp \<and>
   fst (compute_scores_for_device lib0 (fresh_indices lib0 no_aliases) living_light_request
     living_lamp no_aliases default_config) = 0.685 \<and>
   \<not> room_pass lib0 living_light_request bedroom_lamp \<and>
   fst (compute_scores_for_device lib0 (fresh_indices lib0 no_aliases) living_light_request
     bedroom_lamp no_aliases default_config) = - 1 \<and>
   se_room_q living_light_request \<noteq> [] \<and>
   se_room_pass lib0 ROOM_ALIASES living_light_request living_lamp \<and>
   se_floor_pass lib0 living_light_request living_lamp \<and>
   se_type_pass lib0 living_light_request living_lamp \<and>
   se_name_pass lib0 living_light_request living_lamp \<and>
   se_score (score_entity lib0 ROOM_ALIASES living_light_request living_lamp) = 1.04 \<and>
   \<not> se_room_pass lib0 ROOM_ALIASES living_light_request bedroom_lamp \<and>
   se_score (score_entity lib0 ROOM_ALIASES living_light_request bedroom_lamp) = - 1"
proof -
  note a = room_gate [of lib0 living_light_request living_lamp "fresh_indices lib0 no_aliases"
      no_aliases default_config ROOM_ALIASES]
  note b = room_gate [of lib0 living_light_request bedroom_lamp "fresh_indices lib0 no_aliases"
      no_aliases default_config ROOM_ALIASES]
  have n: "tfidf_max lib0 [ustr ''bedroom''] (ustr ''livingroom'') = None" by (simp add: lib0_def)
  have rb: "\<not> room_pass lib0 living_light_request bedroom_lamp"
    by (simp add: room_pass_def request_q nonempty_literals bedroom_scores n get_or_def)
  have sl: "se_room_pass lib0 ROOM_ALIASES living_light_request living_lamp"
    "se_floor_pass lib0 living_light_request living_lamp"
    "se_type_pass lib0 living_light_request living_lamp"
    "se_name_pass lib0 living_light_request living_lamp"
    by (simp_all add: se_room_pass_def se_floor_pass_def se_type_pass_def se_name_pass_def
        se_request_q se_living_room se_living_type nonempty_literals THRESHOLDS_def)
  have sb: "\<not> se_room_pass lib0 ROOM_ALIASES living_light_request bedroom_lamp"
    by (simp add: se_room_pass_def se_request_q nonempty_literals se_bedroom_room THRESHOLDS_def)
  from a b rb sl sb show ?thesis
    by (simp add: living_gates living_base request_bonus se_request_q nonempty_literals
        se_living_score)
qed


section \<open>Bonuses and warnings\<close>

lemma location_bonus_cases:
  "location_bonus lib dev e als =
     (if name_q lib dev \<noteq> [] \<and>
         detect_location_from_name lib (name_q lib dev) (rooms als) \<noteq> [] \<and>
         normalize_str lib (detect_location_from_name lib (name_q lib dev) (rooms als)) \<noteq> [] \<and>
         normalize_str lib (detect_location_from_name lib (name_q lib dev) (rooms als)) =
           normalize_str lib (get_primary_field lib e F_room)
      then 0.4 else 0)"
  by (simp add: location_bonus_def Let_def)

lemma se_location_bonus_cases:
  "se_location_bonus lib ra dev e =
     (if se_name_q dev \<noteq> [] \<and>
         (\<exists>r. extract_location_from_name lib ra (se_name_q dev) = Some r \<and> r \<noteq> [] \<and>
              (r = normalize_room lib ra (room_name e) \<or> r = normalize_room lib ra (room_name_en e) \<or>
               r = normalize_room lib ra (room_type e)))
      then 0.4 else 0)"
  by (auto simp: se_location_bonus_def LOCATION_BONUS_def split: option.splits)

lemma se_all_devices:
  "is_all_devices lib dev \<Longrightarrow> 0.90 \<le> se_type_score lib dev e \<Longrightarrow>
   se_score (score_entity lib ra dev e) = 0.80 \<and> se_warn (score_entity lib ra dev e) = []"
  by (simp add: score_entity_def)

lemma action_warnings: "warnings (fst (process_device lib indices es index als cfg dev)) = []"
  by (simp add: process_device_def Let_def)

text \<open>
  C4, as the code has it. \<open>compute_scores_for_device\<close> adds one bonus to the weighted sum
  of an accepted pair: 0.4 when the room code found in the device name has the normal form
  of the entity's room; its actions carry no warning. \<open>score_entity\<close>, outside its
  all-devices mode, adds to the weighted sum of an accepted pair 0.10 when the room score
  is at least 0.98, 0.05 when a name that is not generic scores at least 0.98, 0.03 when
  the floor score is at least 0.98, 0.03 when the service domain and the entity domain,
  both non-empty after alias normalisation, are equal (when they differ the result
  carries a warning and the score stands), and 0.4 when the room type found in the device
  name is the normalised room of the entity. In the all-devices mode an accepted pair
  scores 0.80 flat.
\<close>

theorem bonuses:
  "(floor_pass lib cfg dev e \<and> room_pass lib dev e \<and> type_pass lib indices cfg dev e \<and>
    name_pass lib cfg dev e \<longrightarrow>
      fst (compute_scores_for_device lib indices dev e als cfg) =
        base_score lib indices cfg dev e + location_bonus lib dev e als) \<and>
   location_bonus lib dev e als =
     (if name_q lib dev \<noteq> [] \<and>
         detect_location_from_name lib (name_q lib dev) (rooms als) \<noteq> [] \<and>
         normalize_str lib (detect_location_from_name lib (name_q lib dev) (rooms als)) \<noteq> [] \<and>
         normalize_str lib (detect_location_from_name lib (name_q lib dev) (rooms als)) =
           normalize_str lib (get_primary_field lib e F_room)
      then 0.4 else 0) \<and>
   warnings (fst (process_device lib indices es index als cfg dev)) = [] \<and>
   (\<not> is_all_devices lib dev \<and> \<not> se_rejected lib ra dev e \<longrightarrow>
      se_score (score_entity lib ra dev e) =
        se_base_score lib ra dev e + se_location_bonus lib ra dev e +
        (if se_room_score lib ra dev e \<ge> 0.98 then 0.10 else 0) +
        (if se_name_q dev \<noteq> [] \<and> \<not> is_generic_device_name lib (se_name_q dev) \<and>
            se_name_score lib dev e \<ge> 0.98 then 0.05 else 0) +
        (if se_floor_score lib dev e \<ge> 0.98 then 0.03 else 0) +
        (if se_domain_checked lib dev e \<and>
            se_svc_domain lib dev = normalize_domain lib (se_e_domain e) then 0.03 else 0) \<and>
      se_warn (score_entity lib ra dev e) =
        (if se_domain_checked lib dev e \<and>
            se_svc_domain lib dev \<noteq> normalize_domain lib (se_e_domain e)
         then [ustr ''Service domain mismatch for '' @ entity_id e] else [])) \<and>
   se_location_bonus lib ra dev e =
     (if se_name_q dev \<noteq> [] \<and>
         (\<exists>r. extract_location_from_name lib ra (se_name_q dev) = Some r \<and> r \<noteq> [] \<and>
              (r = normalize_room lib ra (room_name e) \<or> r = normalize_room lib ra (room_name_en e) \<or>
               r = normalize_room lib ra (room_type e)))
      then 0.4 else 0) \<and>
   (is_all_devices lib dev \<and> 0.90 \<le> se_type_score lib dev e \<longrightarrow>
      se_score (score_entity lib ra dev e) = 0.80 \<and> se_warn (score_entity lib ra dev e) = [])"
proof (intro conjI impI)
  show "fst (compute_scores_for_device lib indices dev e als cfg) =
        base_score lib indices cfg dev e + location_bonus lib dev e als"
    if "floor_pass lib cfg dev e \<and> room_pass lib dev e \<and> type_pass lib indices cfg dev e \<and>
        name_pass lib cfg dev e"
    using that by (simp add: engine_accepted)
  show "warnings (fst (process_device lib indices es index als cfg dev)) = []"
    by (rule action_warnings)
  assume a: "\<not> is_all_devices lib dev \<and> \<not> se_rejected lib ra dev e"
  then show "se_score (score_entity lib ra dev e) =
        se_base_score lib ra dev e + se_location_bonus lib ra dev e +
        (if se_room_score lib ra dev e \<ge> 0.98 then 0.10 else 0) +
        (if se_name_q dev \<noteq> [] \<and> \<not> is_generic_device_name lib (se_name_q dev) \<and>
            se_name_score lib dev e \<ge> 0.98 then 0.05 else 0) +
        (if se_floor_score lib dev e \<ge> 0.98 then 0.03 else 0) +
        (if se_domain_checked lib dev e \<and>
            se_svc_domain lib dev = normalize_domain lib (se_e_domain e) then 0.03 else 0)"
    using se_exact_formula [of lib ra dev e]
    by (simp add: se_accepted se_domain_bonus_def)
  show "se_warn (score_entity lib ra dev e) =
        (if se_domain_checked lib dev e \<and>
            se_svc_domain lib dev \<noteq> normalize_domain lib (se_e_domain e)
         then [ustr ''Service domain mismatch for '' @ entity_id e] else [])"
    using a by (simp add: se_accepted se_warnings_def)
next
  assume "is_all_devices lib dev \<and> 0.90 \<le> se_type_score lib dev e"
  then show "se_score (score_entity lib ra dev e) = 0.80" "se_warn (score_entity lib ra dev e) = []"
    using se_all_devices [of lib dev e ra] by simp_all
qed (rule location_bonus_cases se_location_bonus_cases)+

lemma all_lights_q:
  "se_floor_q all_lights_request = []" "se_room_q all_lights_request = []"
  "se_name_q all_lights_request = []" "se_type_q lib all_lights_request = ustr ''light''"
  by (simp_all add: se_floor_q_def se_room_q_def se_name_q_def se_type_q_def all_lights_request_def
      empty_obj_def nonempty_literals lower_literals)

lemma all_lights_type: "se_type_score lib all_lights_request living_lamp = 1"
  by (simp add: se_type_score_def all_lights_q se_e_domain_def living_fields nonempty_literals
      dot_literals lower_literals domain_light not_special normalize_text_eq norm_literals
      normalize_str_def [of _ "[]"] Let_def)

theorem bonuses_witness:
  "floor_pass lib0 default_config living_light_request living_lamp \<and>
   room_pass lib0 living_light_request living_lamp \<and>
   type_pass lib0 (fresh_indices lib0 no_aliases) default_config living_light_request living_lamp \<and>
   name_pass lib0 default_config living_light_request living_lamp \<and>
   fst (compute_scores_for_device lib0 (fresh_indices lib0 no_aliases) living_light_request
     living_lamp no_aliases default_config) = 0.685 \<and>
   \<not> is_all_devices lib0 living_light_request \<and>
   \<not> se_rejected lib0 ROOM_ALIASES living_light_request living_lamp \<and>
   se_score (score_entity lib0 ROOM_ALIASES living_light_request living_lamp) = 0.94 + 0.10 \<and>
   se_warn (score_entity lib0 ROOM_ALIASES living_light_request living_lamp) = [] \<and>
   is_all_devices lib0 all_lights_request \<and>
   0.90 \<le> se_type_score lib0 all_lights_request living_lamp \<and>
   se_score (score_entity lib0 ROOM_ALIASES all_lights_request living_lamp) = 0.80"
proof -
  note a = bonuses [of lib0 default_config living_light_request living_lamp
      "fresh_indices lib0 no_aliases" no_aliases "[]" Map.empty ROOM_ALIASES]
  note b = bonuses [of lib0 default_config all_lights_request living_lamp
      "fresh_indices lib0 no_aliases" no_aliases "[]" Map.empty ROOM_ALIASES]
  have g: "\<not> is_all_devices lib0 living_light_request"
    by (simp add: is_all_devices_def se_request_q nonempty_literals)
  have r: "\<not> se_rejected lib0 ROOM_ALIASES living_light_request living_lamp"
    by (simp add: se_rejected_def floor_only_mode_def se_request_q se_room_pass_def se_type_pass_def
        se_living_room se_living_type nonempty_literals THRESHOLDS_def)
  have d: "\<not> se_domain_checked lib0 living_light_request living_lamp"
    by (simp add: se_domain_checked_def request_fields)
  have l: "se_location_bonus lib0 ROOM_ALIASES living_light_request living_lamp = 0"
    by (simp add: se_location_bonus_def se_request_q)
  have f: "se_floor_score lib0 living_light_request living_lamp = 0"
    by (simp add: se_floor_zero se_request_q)
  have al: "is_all_devices lib0 all_lights_request"
    by (simp add: is_all_devices_def all_lights_q nonempty_literals)
  have s1: "se_score (score_entity lib0 ROOM_ALIASES living_light_request living_lamp) = 0.94 + 0.10"
    and w1: "se_warn (score_entity lib0 ROOM_ALIASES living_light_request living_lamp) = []"
    using a g r d l f by (simp_all add: se_living_score(2) se_living_room se_request_q)
  have s2: "se_score (score_entity lib0 ROOM_ALIASES all_lights_request living_lamp) = 0.80"
    using b al by (simp add: all_lights_type)
  have e1: "fst (compute_scores_for_device lib0 (fresh_indices lib0 no_aliases) living_light_request
     living_lamp no_aliases default_config) = 0.685"
    using a by (simp add: living_gates living_base request_bonus)
  show ?thesis
    using g r al s1 w1 s2 e1 by (simp add: living_gates all_lights_type)
qed

text \<open>The engine adds no 0.10 for a near-exact room: the accepted pair of the example
  has room score 1.0 and its composite is the weighted sum.\<close>

theorem bonuses_counterexample:
  "\<not> (\<forall>lib indices dev e als cfg.
        floor_pass lib cfg dev e \<and> room_pass lib dev e \<and> type_pass lib indices cfg dev e \<and>
        name_pass lib cfg dev e \<and> 0.98 \<le> room_score lib dev e \<longrightarrow>
        base_score lib indices cfg dev e + 0.10 \<le>
          fst (compute_scores_for_device lib indices dev e als cfg))"
proof
  assume "\<forall>lib indices dev e als cfg.
        floor_pass lib cfg dev e \<and> room_pass lib dev e \<and> type_pass lib indices cfg dev e \<and>
        name_pass lib cfg dev e \<and> 0.98 \<le> room_score lib dev e \<longrightarrow>
        base_score lib indices cfg dev e + 0.10 \<le>
          fst (compute_scores_for_device lib indices dev e als cfg)"
  then have "floor_pass lib0 default_config living_light_request living_lamp \<and>
      room_pass lib0 living_light_request living_lamp \<and>
      type_pass lib0 (fresh_indices lib0 no_aliases) default_config living_light_request living_lamp \<and>
      name_pass lib0 default_config living_light_request living_lamp \<and>
      0.98 \<le> room_score lib0 living_light_request living_lamp \<longrightarrow>
      base_score lib0 (fresh_indices lib0 no_aliases) default_config living_light_request living_lamp + 0.10
        \<le> fst (compute_scores_for_device lib0 (fresh_indices lib0 no_aliases) living_light_request
             living_lamp no_aliases default_config)"
    by blast
  then show False
    by (simp add: living_gates living_scores living_base living_composite)
qed

section \<open>The candidate pool\<close>

lemma narrow_by_cases:
  "narrow_by lib fld limit dev pool =
     (if limit < length pool \<and> get_primary_field lib dev fld \<noteq> [] \<and>
         filter (\<lambda>e. str_in (normalize_str lib (get_primary_field lib dev fld))
                   (normalize_str lib (get_primary_field lib e fld))) pool \<noteq> []
      then filter (\<lambda>e. str_in (normalize_str lib (get_primary_field lib dev fld))
                    (normalize_str lib (get_primary_field lib e fld))) pool
      else pool)"
  by (simp add: narrow_by_def Let_def)

lemma narrow_by_nonempty: "pool \<noteq> [] \<Longrightarrow> narrow_by lib fld limit dev pool \<noteq> []"
  by (simp add: narrow_by_cases)

lemma type_pool_nonempty: "es \<noteq> [] \<Longrightarrow> type_pool lib dev es index \<noteq> []"
  by (simp add: type_pool_def Let_def)

lemma narrow_by_subset: "set (narrow_by lib fld limit dev pool) \<subseteq> set pool"
  by (auto simp: narrow_by_cases)

text \<open>
  C6, as the code has it. \<open>filter_candidates\<close> returns a non-empty pool whenever the
  entity pool is non-empty. It narrows the pool by type first by room, when that pool
  holds more than 50 entities, and then by floor, when the pool still holds more than 30.
  A narrowing applies when the request gives the field and some entity survives it, and
  it keeps exactly the entities whose normalised primary field contains the normalised
  requested text; otherwise the pool is left as it is.
\<close>

theorem filter_candidates_narrowing:
  "(es \<noteq> [] \<longrightarrow> filter_candidates lib dev es index \<noteq> []) \<and>
   filter_candidates lib dev es index =
     narrow_by lib F_floor 30 dev (narrow_by lib F_room 50 dev (type_pool lib dev es index)) \<and>
   narrow_by lib fld limit dev pool =
     (if limit < length pool \<and> get_primary_field lib dev fld \<noteq> [] \<and>
         filter (\<lambda>e. str_in (normalize_str lib (get_primary_field lib dev fld))
                   (normalize_str lib (get_primary_field lib e fld))) pool \<noteq> []
      then filter (\<lambda>e. str_in (normalize_str lib (get_primary_field lib dev fld))
                    (normalize_str lib (get_primary_field lib e fld))) pool
      else pool) \<and>
   set (filter_candidates lib dev es index) \<subseteq> set (type_pool lib dev es index)"
proof (intro conjI impI)
  show "filter_candidates lib dev es index \<noteq> []" if "es \<noteq> []"
    using that by (simp add: filter_candidates_def narrow_by_nonempty type_pool_nonempty)
  show "filter_candidates lib dev es index =
     narrow_by lib F_floor 30 dev (narrow_by lib F_room 50 dev (type_pool lib dev es index))"
    by (simp add: filter_candidates_def)
  show "set (filter_candidates lib dev es index) \<subseteq> set (type_pool lib dev es index)"
    using narrow_by_subset unfolding filter_candidates_def by blast
qed (rule narrow_by_cases)

lemma keep2: "normalize_str lib (ustr ''living'') = ustr ''living''"
  by (simp add: normalize_eq str_lower_def lower_cp_def is_keep_def ustr_def)

lemma room_request_fields:
  "get_primary_field lib living_room_request F_floor = []"
  "get_primary_field lib living_room_request F_room = ustr ''living_room''"
  "get_primary_field lib living_room_request F_type = []"
  "service living_room_request = []"
  by (simp_all add: get_primary_field_def extract_field_candidates_def living_room_request_def
      empty_obj_def nonempty_literals lower_literals)

lemma living_nonempty: "ustr ''living'' \<noteq> []"
  by (simp add: ustr_def)

lemma pool_rooms:
  "get_primary_field lib living_lamp F_room = ustr ''living_room''"
  "get_primary_field lib sofa_lamp F_room = ustr ''living''"
proof -
  show "get_primary_field lib living_lamp F_room = ustr ''living_room''"
    by (simp add: get_primary_field_def living_cands nonempty_literals)
  show "get_primary_field lib sofa_lamp F_room = ustr ''living''"
    by (simp add: get_primary_field_def extract_field_candidates_def sofa_lamp_def empty_obj_def
        living_nonempty)
qed

lemma room_containment:
  "str_in (ustr ''livingroom'') (ustr ''livingroom'')"
  "\<not> str_in (ustr ''livingroom'') (ustr ''living'')"
  "str_in (ustr ''living'') (ustr ''livingroom'')"
  by (simp_all add: ustr_def)

lemma sofa_not_living: "sofa_lamp \<noteq> living_lamp"
proof
  assume "sofa_lamp = living_lamp"
  then have "room_name sofa_lamp = room_name living_lamp" by simp
  then show False by (simp add: sofa_lamp_def living_lamp_def empty_obj_def ustr_def)
qed

lemma crowded_result:
  "filter_candidates lib living_room_request crowded_pool Map.empty = replicate 50 living_lamp"
proof -
  have t: "type_pool lib living_room_request crowded_pool Map.empty = crowded_pool"
    by (simp add: type_pool_def room_request_fields)
  have f: "filter (\<lambda>e. str_in (normalize_str lib (ustr ''living_room''))
                   (normalize_str lib (get_primary_field lib e F_room))) crowded_pool
        = replicate 50 living_lamp"
    by (simp add: crowded_pool_def pool_rooms norm_literals keep2 room_containment)
  have len: "length crowded_pool = 51" by (simp add: crowded_pool_def)
  have r: "narrow_by lib F_room 50 living_room_request crowded_pool = replicate 50 living_lamp"
    by (simp add: narrow_by_cases room_request_fields f len nonempty_literals)
  show ?thesis
    unfolding filter_candidates_def t r by (simp add: narrow_by_cases room_request_fields)
qed

theorem filter_candidates_narrowing_witness:
  "crowded_pool \<noteq> [] \<and>
   50 < length (type_pool lib0 living_room_request crowded_pool Map.empty) \<and>
   get_primary_field lib0 living_room_request F_room \<noteq> [] \<and>
   filter_candidates lib0 living_room_request crowded_pool Map.empty = replicate 50 living_lamp \<and>
   filter_candidates lib0 living_room_request crowded_pool Map.empty \<noteq> []"
proof -
  note t = filter_candidates_narrowing [of crowded_pool lib0 living_room_request Map.empty F_room 50
      crowded_pool]
  have ne: "crowded_pool \<noteq> []" by (simp add: crowded_pool_def)
  from t ne have n: "filter_candidates lib0 living_room_request crowded_pool Map.empty \<noteq> []"
    by blast
  have tp: "type_pool lib0 living_room_request crowded_pool Map.empty = crowded_pool"
    by (simp add: type_pool_def room_request_fields)
  have len: "length crowded_pool = 51" by (simp add: crowded_pool_def)
  show ?thesis
    using ne n by (simp add: tp len crowded_result room_request_fields nonempty_literals)
qed

text \<open>An entity whose room is contained by the requested room is not kept: of the 51
  lights, the one in \<open>living\<close> is dropped for the request \<open>living_room\<close>.\<close>

theorem filter_candidates_counterexample:
  "50 < length (type_pool lib0 living_room_request crowded_pool Map.empty) \<and>
   get_primary_field lib0 living_room_request F_room \<noteq> [] \<and>
   sofa_lamp \<in> set (type_pool lib0 living_room_request crowded_pool Map.empty) \<and>
   str_in (normalize_str lib0 (get_primary_field lib0 sofa_lamp F_room))
     (normalize_str lib0 (get_primary_field lib0 living_room_request F_room)) \<and>
   sofa_lamp \<notin> set (filter_candidates lib0 living_room_request crowded_pool Map.empty)"
proof -
  have t: "type_pool lib0 living_room_request crowded_pool Map.empty = crowded_pool"
    by (simp add: type_pool_def room_request_fields)
  show ?thesis
    unfolding t crowded_result
    by (simp add: crowded_pool_def room_request_fields pool_rooms norm_literals keep2
        room_containment nonempty_literals sofa_not_living)
qed


section \<open>Suggestions\<close>

lemma in_scope_needs_floor:
  "norm_loose lib (get_primary_field lib dev F_floor) \<noteq> [] \<Longrightarrow>
   norm_loose lib (get_primary_field lib e F_floor) = [] \<Longrightarrow> \<not> in_scope lib dev e"
  by (simp add: in_scope_def Let_def)

lemma loose_suggestions_eq:
  "loose_suggestions lib dev pool =
     map (to_suggestion lib)
       (take 3 (sort_desc snd (map (\<lambda>e. (e, loose_score lib dev e)) (filter (in_scope lib dev) pool))))"
  by (simp add: loose_suggestions_def Let_def sort_desc_def)

lemma loose_suggestions_sorted:
  "sorted_wrt (\<lambda>s t. sg_reason_score s \<ge> sg_reason_score t) (loose_suggestions lib dev pool)"
proof -
  have "sorted_wrt (\<lambda>a b. snd a \<ge> snd b)
      (take 3 (sort_desc snd (map (\<lambda>e. (e, loose_score lib dev e)) (filter (in_scope lib dev) pool))))"
    by (rule sorted_wrt_take) (rule sort_desc_sorted)
  then show ?thesis
    by (simp add: loose_suggestions_eq sorted_wrt_map to_suggestion_def)
qed

lemma action_suggestions:
  "suggestions_if_empty (fst (process_device lib indices es index als cfg dev)) =
     (if targets (fst (process_device lib indices es index als cfg dev)) = []
      then loose_suggestions lib dev (filter_candidates lib dev es index) else [])"
  by (simp add: process_device_def Let_def)

text \<open>
  C7, as the code has it. When the floor of the request is non-empty after the
  normalisation of \<open>loose_suggestions\<close> (lower case, underscores, hyphens and spaces
  removed) and no entity of the pool has a floor that is, there are no suggestions. In
  every case the suggestions are the first three entities of the scoped pool in
  descending order of the relaxed score, which weighs the four field similarities with
  0.15, 0.40, 0.30 and 0.15; and an action carries them exactly when it has no target.
\<close>

theorem loose_suggestions_scope:
  "(norm_loose lib (get_primary_field lib dev F_floor) \<noteq> [] \<and>
    list_all (\<lambda>e. norm_loose lib (get_primary_field lib e F_floor) = []) pool \<longrightarrow>
      loose_suggestions lib dev pool = []) \<and>
   loose_suggestions lib dev pool =
     map (to_suggestion lib)
       (take 3 (sort_desc snd (map (\<lambda>e. (e, loose_score lib dev e)) (filter (in_scope lib dev) pool)))) \<and>
   length (loose_suggestions lib dev pool) \<le> 3 \<and>
   sorted_wrt (\<lambda>s t. sg_reason_score s \<ge> sg_reason_score t) (loose_suggestions lib dev pool) \<and>
   loose_score lib dev e =
     0.15 * field_similarity lib (get_primary_field lib dev F_floor) (extract_field_candidates lib e F_floor) +
     0.40 * field_similarity lib (get_primary_field lib dev F_room) (extract_field_candidates lib e F_room) +
     0.30 * field_similarity lib (get_primary_field lib dev F_name) (extract_field_candidates lib e F_name) +
     0.15 * field_similarity lib (get_primary_field lib dev F_type) (extract_field_candidates lib e F_type) \<and>
   suggestions_if_empty (fst (process_device lib indices es index als cfg dev)) =
     (if targets (fst (process_device lib indices es index als cfg dev)) = []
      then loose_suggestions lib dev (filter_candidates lib dev es index) else [])"
proof (intro conjI impI)
  assume a: "norm_loose lib (get_primary_field lib dev F_floor) \<noteq> [] \<and>
    list_all (\<lambda>e. norm_loose lib (get_primary_field lib e F_floor) = []) pool"
  then have "filter (in_scope lib dev) pool = []"
    by (auto simp: filter_empty_conv list_all_iff in_scope_needs_floor)
  then show "loose_suggestions lib dev pool = []" by (simp add: loose_suggestions_eq sort_desc_def)
next
  show "length (loose_suggestions lib dev pool) \<le> 3" by (simp add: loose_suggestions_eq)
qed (rule loose_suggestions_eq loose_suggestions_sorted loose_score_def action_suggestions)+

lemma bare_floor: "get_primary_field lib bare_lamp F_floor = []"
  "get_primary_field lib bare_lamp F_room = []"
  by (simp_all add: get_primary_field_def extract_field_candidates_def bare_lamp_def empty_obj_def)

lemma floor_requests:
  "get_primary_field lib floor2_request F_floor = ustr ''2''"
  "get_primary_field lib hyphen_floor_request F_floor = ustr ''-''"
  "get_primary_field lib hyphen_floor_request F_room = []"
  by (simp_all add: get_primary_field_def extract_field_candidates_def floor2_request_def
      hyphen_floor_request_def empty_obj_def ustr_def)

lemma norm_loose_literals:
  "norm_loose lib (ustr ''2'') = ustr ''2''" "norm_loose lib (ustr ''-'') = []" "norm_loose lib [] = []"
  by (simp_all add: norm_loose_def str_lower_def lower_cp_def strip_def is_space_def ustr_def)

theorem loose_suggestions_scope_witness:
  "norm_loose lib0 (get_primary_field lib0 floor2_request F_floor) \<noteq> [] \<and>
   list_all (\<lambda>e. norm_loose lib0 (get_primary_field lib0 e F_floor) = []) [bare_lamp] \<and>
   loose_suggestions lib0 floor2_request [bare_lamp] = []"
proof -
  have a: "norm_loose lib0 (get_primary_field lib0 floor2_request F_floor) \<noteq> []"
    by (simp add: floor_requests norm_loose_literals) (simp add: ustr_def)
  have b: "list_all (\<lambda>e. norm_loose lib0 (get_primary_field lib0 e F_floor) = []) [bare_lamp]"
    by (simp add: bare_floor norm_loose_literals)
  from loose_suggestions_scope [of lib0 floor2_request "[bare_lamp]"] a b show ?thesis by blast
qed

text \<open>A request whose floor is a hyphen specifies a floor, no entity of the pool has
  floor information, the ranked list is empty, and still the entity is suggested.\<close>

theorem loose_suggestions_counterexample:
  "get_primary_field lib0 hyphen_floor_request F_floor \<noteq> [] \<and>
   list_all (\<lambda>e. get_primary_field lib0 e F_floor = []) [bare_lamp] \<and>
   targets (fst (process_device lib0 (fresh_indices lib0 no_aliases) [bare_lamp]
      (build_type_index lib0 [bare_lamp]) no_aliases default_config hyphen_floor_request)) = [] \<and>
   map sg_entity_id (suggestions_if_empty (fst (process_device lib0 (fresh_indices lib0 no_aliases)
      [bare_lamp] (build_type_index lib0 [bare_lamp]) no_aliases default_config
      hyphen_floor_request))) = [ustr ''light.lamp'']"
proof -
  have q: "get_primary_field lib0 hyphen_floor_request F_type = []" "service hyphen_floor_request = []"
    "get_primary_field lib0 hyphen_floor_request F_name = []"
    by (simp_all add: get_primary_field_def extract_field_candidates_def hyphen_floor_request_def
        empty_obj_def lower_literals)
  have h: "ustr ''-'' \<noteq> []" by (simp add: ustr_def)
  have pool: "filter_candidates lib0 hyphen_floor_request [bare_lamp] (build_type_index lib0 [bare_lamp])
      = [bare_lamp]"
    by (simp add: filter_candidates_def narrow_by_def type_pool_def q)
  have n: "normalize_str lib0 (ustr ''-'') = []"
    by (simp add: normalize_eq str_lower_def lower_cp_def is_keep_def ustr_def)
  have fs: "floor_score lib0 hyphen_floor_request bare_lamp = 0"
    by (simp add: floor_score_def floor_q_def floor_requests h field_similarity_def n)
  have "\<not> floor_pass lib0 default_config hyphen_floor_request bare_lamp"
    by (simp add: floor_pass_def floor_q_def floor_requests h fs default_cfg default_thresholds_def
        get_or_def)
  then have rej: "fst (compute_scores_for_device lib0 (fresh_indices lib0 no_aliases)
      hyphen_floor_request bare_lamp no_aliases default_config) = - 1"
    by (simp add: engine_rejected)
  have tp: "top_ranked lib0 (fresh_indices lib0 no_aliases) hyphen_floor_request [bare_lamp]
      no_aliases default_config = []"
    by (simp add: top_ranked_def scored_def rej sort_desc_def slice_to_def default_cfg)
  have sc: "in_scope lib0 hyphen_floor_request bare_lamp"
    by (simp add: in_scope_def floor_requests bare_floor norm_loose_literals)
  have id: "entity_id bare_lamp = ustr ''light.lamp''" by (simp add: bare_lamp_def empty_obj_def)
  have sg: "map sg_entity_id (loose_suggestions lib0 hyphen_floor_request [bare_lamp]) = [ustr ''light.lamp'']"
    by (simp add: loose_suggestions_eq sc sort_desc_def to_suggestion_def id)
  show ?thesis
    by (simp add: process_device_def pool tp sg floor_requests h bare_floor Let_def)
qed


section \<open>The module state across batches\<close>

text \<open>The calls of \<open>normalize\<close> and \<open>field_similarity\<close> on text, as equations: on a state whose
  text entries are right they return the computed value and touch the caches.\<close>

lemma run_state_update [simp]: "run_state (State_Monad.update f) s = ((), f s)"
  by (simp add: State_Monad.update_def)

lemma normalize_core: "t \<noteq> [] \<Longrightarrow>
  strip (filter is_keep (filter (\<lambda>c. \<not> is_dash c) (filter (\<lambda>c. \<not> is_space c) (str_lower lib t)))) =
  normalize_str lib t"
  by (simp add: normalize_str_def)





lemma map_of_tl_none: "map_of cache k = None \<Longrightarrow> map_of (tl cache) k = None"
  by (cases cache) (auto split: if_splits)

lemma map_of_moved: "k' \<noteq> k \<Longrightarrow> map_of (filter (\<lambda>kv. fst kv \<noteq> k) cache @ [(k, v)]) k' = map_of cache k'"
  by (induction cache) auto

lemma lru_set_other_none:
  "k' \<noteq> k \<Longrightarrow> map_of cache k' = None \<Longrightarrow> map_of (lru_set maxsize cache k v) k' = None"
proof -
  assume a: "k' \<noteq> k" "map_of cache k' = None"
  then have "map_of (filter (\<lambda>kv. fst kv \<noteq> k) cache @ [(k, v)]) k' = None"
    using map_of_moved [of k' k cache v] by simp
  then show ?thesis
    using map_of_tl_none [of "filter (\<lambda>kv. fst kv \<noteq> k) cache @ [(k, v)]" k']
    by (simp add: lru_set_def Let_def)
qed

lemma lru_touch_other_none:
  "k' \<noteq> k \<Longrightarrow> map_of cache k' = None \<Longrightarrow> map_of (lru_touch maxsize cache k v) k' = None"
proof -
  assume a: "k' \<noteq> k" "map_of cache k' = None"
  show ?thesis
  proof (cases "map_of cache k")
    case None
    then show ?thesis using a by (simp add: lru_touch_def lru_set_other_none)
  next
    case (Some c)
    then show ?thesis using a map_of_moved [of k' k cache c] by (simp add: lru_touch_def)
  qed
qed

lemma norm_touch_num_none:
  "map_of cache (Key_num n) = None \<Longrightarrow> map_of (norm_touch lib t cache) (Key_num n) = None"
  by (simp add: norm_touch_def lru_touch_other_none)

lemma fold_norm_touch_num_none:
  "map_of cache (Key_num n) = None \<Longrightarrow> map_of (fold (norm_touch lib) ts cache) (Key_num n) = None"
  by (induction ts arbitrary: cache) (simp_all add: norm_touch_num_none)

lemma fs_norm_touch_num_none:
  "map_of cache (Key_num n) = None \<Longrightarrow> map_of (fs_norm_touch lib q cands tfidf cache) (Key_num n) = None"
  by (simp add: fs_norm_touch_def fold_norm_touch_num_none norm_touch_num_none)







lemma tfidf_ok_tl: "tfidf_entries_ok lib cache \<Longrightarrow> tfidf_entries_ok lib (tl cache)"
  by (cases cache) (simp_all add: tfidf_entries_ok_def)

lemma tfidf_ok_moved:
  "tfidf_entries_ok lib cache \<Longrightarrow>
   (case fst k of Key_text q \<Rightarrow> v = field_similarity lib q (snd k) | Key_num n \<Rightarrow> True) \<Longrightarrow>
   tfidf_entries_ok lib (filter (\<lambda>kv. fst kv \<noteq> k) cache @ [(k, v)])"
  by (auto simp: tfidf_entries_ok_def list_all_iff split: key.splits)

lemma tfidf_ok_set:
  "tfidf_entries_ok lib cache \<Longrightarrow>
   (case fst k of Key_text q \<Rightarrow> v = field_similarity lib q (snd k) | Key_num n \<Rightarrow> True) \<Longrightarrow>
   tfidf_entries_ok lib (lru_set maxsize cache k v)"
  by (simp add: lru_set_def Let_def tfidf_ok_tl tfidf_ok_moved)

lemma tfidf_entries_lookup:
  "tfidf_entries_ok lib cache \<Longrightarrow> map_of cache (Key_text q, cs) = Some v \<Longrightarrow>
   v = field_similarity lib q cs"
  by (auto simp: tfidf_entries_ok_def list_all_iff dest!: map_of_SomeD)

lemma field_similarity_sorted:
  "order_blind lib \<Longrightarrow> field_similarity lib q (sort cands) = field_similarity lib q cands"
  using field_similarity_order_blind [of lib "sort cands" cands q] by simp

lemma tfidf_ok_touch:
  assumes "order_blind lib" "tfidf_entries_ok lib cache"
  shows "tfidf_entries_ok lib (lru_touch 500 cache (Key_text q, sort cands) (field_similarity lib q cands))"
proof (cases "map_of cache (Key_text q, sort cands)")
  case None
  then show ?thesis using assms
    by (simp add: lru_touch_def tfidf_ok_set field_similarity_sorted)
next
  case (Some v)
  then have "v = field_similarity lib q (sort cands)" using assms(2) by (rule tfidf_entries_lookup [rotated])
  then show ?thesis using assms Some by (simp add: lru_touch_def tfidf_ok_moved)
qed





lemma norm_touch_empty [simp]: "norm_touch lib [] cache = cache"
  by (simp add: norm_touch_def)











lemma no_alias_index [simp]: "run_state (build_alias_reverse_index_st lib []) s = (Map.empty, s)"
  by (simp add: build_alias_reverse_index_st_def)





lemma lru_set_first [simp]: "lru_set 500 [] k v = [(k, v)]"
  by (simp add: lru_set_def)

















end
